theory Spec2Isabelle
  imports Complex_Main
begin

section \<open>Data model (database/models.py)\<close>

text \<open>
  The store is a PostgreSQL database with the PostGIS extension, reached through
  SQLAlchemy. A table is modelled as the list of its rows, a row as a record with one
  field per column the functions below read or write, a nullable column as an option,
  and a UUID as a natural number. The columns \<open>created_at\<close> and \<open>updated_at\<close> are
  written by the server clock and read by none of the functions below; they are left
  out.

  A geography value is a point (longitude first, as \<open>ST_MakePoint\<close> takes it) or a
  line string. PostGIS computes the geodesic distance; it is a parameter
  \<open>ST_Distance\<close> of every function that needs it, and \<open>ST_DWithin\<close> has its
  documented meaning: the distance is at most the given number of metres.
\<close>

type_synonym uuid = nat

datatype geography = Point real real | LineString "(real \<times> real) list"

type_synonym distance = "geography \<Rightarrow> geography \<Rightarrow> real"

definition ST_MakePoint :: "real \<Rightarrow> real \<Rightarrow> geography" where
  "ST_MakePoint x y = Point x y"

definition ST_SetSRID :: "geography \<Rightarrow> nat \<Rightarrow> geography" where
  "ST_SetSRID g srid = g"

definition ST_DWithin :: "distance \<Rightarrow> geography \<Rightarrow> geography \<Rightarrow> real \<Rightarrow> bool" where
  "ST_DWithin ST_Distance a b r \<longleftrightarrow> ST_Distance a b \<le> r"

text \<open>Class \<open>SpeedCamera\<close>, table \<open>speed_cameras\<close>.\<close>

record SpeedCamera =
  cam_id :: uuid
  cam_location :: geography
  cam_speed_limit_kmh :: int
  cam_camera_type :: string
  cam_direction_degrees :: "int option"
  cam_verified :: "bool option"
  cam_verification_count :: "int option"
  cam_confidence_score :: "real option"
  cam_reported_by :: "uuid option"
  cam_notes :: "string option"

text \<open>Class \<open>HazardDetection\<close>, table \<open>hazard_detections\<close>. Timestamps are integers.\<close>

record HazardDetection =
  haz_id :: uuid
  haz_location :: geography
  haz_hazard_type :: string
  haz_severity :: string
  haz_confidence_score :: "real option"
  haz_detected_by :: "uuid option"
  haz_detected_at :: int
  haz_expires_at :: "int option"
  haz_verified :: "bool option"
  haz_verification_count :: "int option"
  haz_is_active :: "bool option"
  haz_description :: "string option"
  haz_image_url :: "string option"

text \<open>Class \<open>RoadSpeedLimit\<close>, table \<open>road_speed_limits\<close>.\<close>

record RoadSpeedLimit =
  lim_id :: uuid
  lim_road_segment :: geography
  lim_speed_limit_kmh :: int
  lim_road_name :: "string option"
  lim_road_type :: "string option"
  lim_direction :: "string option"
  lim_verified :: "bool option"
  lim_verification_count :: "int option"
  lim_confidence_score :: "real option"
  lim_reported_by :: "uuid option"
  lim_notes :: "string option"

text \<open>Class \<open>HazardousRoadSegment\<close>, table \<open>hazardous_road_segments\<close>.\<close>

record HazardousRoadSegment =
  seg_id :: uuid
  seg_road_segment :: geography
  seg_hazard_type :: string
  seg_severity :: "string option"
  seg_road_name :: "string option"
  seg_osm_id :: "string option"
  seg_confidence_score :: "real option"
  seg_reported_by :: "uuid option"
  seg_notes :: "string option"

text \<open>Classes \<open>SchoolZone\<close> and \<open>HospitalZone\<close> have the same columns.\<close>

record Zone =
  zone_id :: uuid
  zone_location :: geography
  zone_name :: "string option"
  zone_address :: "string option"
  zone_osm_id :: "string option"

text \<open>
  The database: one list of rows per table, in storage order. \<open>unavailable\<close> names the
  tables on which a statement raises at the moment (a lost connection, a missing
  relation); \<open>next_uuid\<close> is the source of fresh primary keys (\<open>default=uuid4\<close>).
\<close>

datatype relation =
  speed_cameras_table | road_speed_limits_table | hazard_detections_table
  | hazardous_road_segments_table | school_zones_table | hospital_zones_table

record database =
  speed_cameras :: "SpeedCamera list"
  road_speed_limits :: "RoadSpeedLimit list"
  hazard_detections :: "HazardDetection list"
  hazardous_road_segments :: "HazardousRoadSegment list"
  school_zones :: "Zone list"
  hospital_zones :: "Zone list"
  unavailable :: "relation list"
  next_uuid :: uuid

text \<open>
  What the code raises. The first four are raised by the database layer: the server
  cannot run the statement, a value does not fit its column or a \<open>LIMIT\<close> is negative,
  a constraint is violated, \<open>scalar_one_or_none\<close> saw two rows. \<open>TypeError\<close> is
  Python's. \<open>HTTPException\<close> carries the status code.
\<close>

datatype exn =
  OperationalError | DataError | IntegrityError | MultipleResultsFound | TypeError
  | HTTPException nat

section \<open>Nearby queries (database/queries.py)\<close>

text \<open>
  A value stored in or compared with a \<open>Numeric(3, 2)\<close> column is a \<open>NUMERIC(3, 2)\<close>
  value for PostgreSQL: rounded to two decimals, half away from zero, and rejected
  when the rounded value is 10 or more in absolute value. The threshold
  \<open>min_confidence\<close> of a query is bound with the type of the column it is compared
  with, so it is rounded in this way before the comparison.
\<close>

definition round_2 :: "real \<Rightarrow> real" where
  "round_2 x = sgn x * real_of_int \<lfloor>\<bar>x\<bar> * 100 + 1 / 2\<rfloor> / 100"

definition numeric_3_2 :: "real \<Rightarrow> exn + real" where
  "numeric_3_2 x =
     (let r = round_2 x
      in if \<bar>r\<bar> < 10 then Inr r else Inl DataError)"

text \<open>
  A comparison with a NULL column is not true in SQL, so the row is not selected.
\<close>

definition sql_ge :: "real option \<Rightarrow> real \<Rightarrow> bool" where
  "sql_ge col v = (case col of None \<Rightarrow> False | Some s \<Rightarrow> s \<ge> v)"

definition sql_is_true :: "bool option \<Rightarrow> bool" where
  "sql_is_true col = (case col of None \<Rightarrow> False | Some b \<Rightarrow> b)"

text \<open>
  \<open>ORDER BY distance LIMIT limit\<close>: the rows in ascending order of the key, then the
  first \<open>limit\<close> of them. PostgreSQL rejects a negative \<open>LIMIT\<close>.
\<close>

definition order_by_limit :: "('a \<Rightarrow> real) \<Rightarrow> int \<Rightarrow> 'a list \<Rightarrow> exn + 'a list" where
  "order_by_limit key limit rows =
     (if limit < 0 then Inl DataError else Inr (take (nat limit) (sort_key key rows)))"

definition get_nearby_speed_cameras ::
  "distance \<Rightarrow> database \<Rightarrow> real \<Rightarrow> real \<Rightarrow> real \<Rightarrow> real \<Rightarrow> bool \<Rightarrow> int
     \<Rightarrow> exn + SpeedCamera list" where
  "get_nearby_speed_cameras ST_Distance db latitude longitude radius_meters
       min_confidence verified_only limit =
     (let point = ST_SetSRID (ST_MakePoint longitude latitude) 4326;
          query = filter (\<lambda>c. ST_DWithin ST_Distance (cam_location c) point radius_meters)
                    (speed_cameras db);
          query = (if min_confidence > 0
                   then filter (\<lambda>c. sql_ge (cam_confidence_score c) (round_2 min_confidence)) query
                   else query);
          query = (if verified_only
                   then filter (\<lambda>c. sql_is_true (cam_verified c)) query
                   else query)
      in if speed_cameras_table \<in> set (unavailable db) then Inl OperationalError
         else if min_confidence > 0 \<and> \<not> \<bar>round_2 min_confidence\<bar> < 10 then Inl DataError
         else order_by_limit (\<lambda>c. ST_Distance (cam_location c) point) limit query)"

text \<open>
  \<open>get_nearby_hazards\<close>; \<open>now\<close> is the value of \<open>func.now()\<close> when the statement runs.
\<close>

definition hazard_active :: "int \<Rightarrow> HazardDetection \<Rightarrow> bool" where
  "hazard_active now h \<longleftrightarrow>
     sql_is_true (haz_is_active h) \<and>
     (case haz_expires_at h of None \<Rightarrow> True | Some t \<Rightarrow> t > now)"

definition get_nearby_hazards ::
  "distance \<Rightarrow> int \<Rightarrow> database \<Rightarrow> real \<Rightarrow> real \<Rightarrow> real \<Rightarrow> real \<Rightarrow> bool \<Rightarrow> int
     \<Rightarrow> exn + HazardDetection list" where
  "get_nearby_hazards ST_Distance now db latitude longitude radius_meters
       min_confidence active_only limit =
     (let point = ST_SetSRID (ST_MakePoint longitude latitude) 4326;
          query = filter (\<lambda>h. ST_DWithin ST_Distance (haz_location h) point radius_meters)
                    (hazard_detections db);
          query = (if min_confidence > 0
                   then filter (\<lambda>h. sql_ge (haz_confidence_score h) (round_2 min_confidence)) query
                   else query);
          query = (if active_only then filter (hazard_active now) query else query)
      in if hazard_detections_table \<in> set (unavailable db) then Inl OperationalError
         else if min_confidence > 0 \<and> \<not> \<bar>round_2 min_confidence\<bar> < 10 then Inl DataError
         else order_by_limit (\<lambda>h. ST_Distance (haz_location h) point) limit query)"


text \<open>\<open>get_nearby_speed_limits\<close> and \<open>get_nearby_hazardous_roads\<close>.\<close>

definition get_nearby_speed_limits ::
  "distance \<Rightarrow> database \<Rightarrow> real \<Rightarrow> real \<Rightarrow> real \<Rightarrow> real \<Rightarrow> bool \<Rightarrow> int
     \<Rightarrow> exn + RoadSpeedLimit list" where
  "get_nearby_speed_limits ST_Distance db latitude longitude radius_meters
       min_confidence verified_only limit =
     (let point = ST_SetSRID (ST_MakePoint longitude latitude) 4326;
          query = filter (\<lambda>l. ST_DWithin ST_Distance (lim_road_segment l) point radius_meters)
                    (road_speed_limits db);
          query = (if min_confidence > 0
                   then filter (\<lambda>l. sql_ge (lim_confidence_score l) (round_2 min_confidence)) query
                   else query);
          query = (if verified_only
                   then filter (\<lambda>l. sql_is_true (lim_verified l)) query
                   else query)
      in if road_speed_limits_table \<in> set (unavailable db) then Inl OperationalError
         else if min_confidence > 0 \<and> \<not> \<bar>round_2 min_confidence\<bar> < 10 then Inl DataError
         else order_by_limit (\<lambda>l. ST_Distance (lim_road_segment l) point) limit query)"

definition get_nearby_hazardous_roads ::
  "distance \<Rightarrow> database \<Rightarrow> real \<Rightarrow> real \<Rightarrow> real \<Rightarrow> real \<Rightarrow> int
     \<Rightarrow> exn + HazardousRoadSegment list" where
  "get_nearby_hazardous_roads ST_Distance db latitude longitude radius_meters
       min_confidence limit =
     (let point = ST_SetSRID (ST_MakePoint longitude latitude) 4326;
          query = filter (\<lambda>s. ST_DWithin ST_Distance (seg_road_segment s) point radius_meters)
                    (hazardous_road_segments db);
          query = (if min_confidence > 0
                   then filter (\<lambda>s. sql_ge (seg_confidence_score s) (round_2 min_confidence)) query
                   else query)
      in if hazardous_road_segments_table \<in> set (unavailable db) then Inl OperationalError
         else if min_confidence > 0 \<and> \<not> \<bar>round_2 min_confidence\<bar> < 10 then Inl DataError
         else order_by_limit (\<lambda>s. ST_Distance (seg_road_segment s) point) limit query)"

text \<open>\<open>get_nearby_school_zones\<close> and \<open>get_nearby_hospital_zones\<close>.\<close>

definition get_nearby_school_zones ::
  "distance \<Rightarrow> database \<Rightarrow> real \<Rightarrow> real \<Rightarrow> real \<Rightarrow> int \<Rightarrow> exn + Zone list" where
  "get_nearby_school_zones ST_Distance db latitude longitude radius_meters limit =
     (let point = ST_SetSRID (ST_MakePoint longitude latitude) 4326;
          query = filter (\<lambda>z. ST_DWithin ST_Distance (zone_location z) point radius_meters)
                    (school_zones db)
      in if school_zones_table \<in> set (unavailable db) then Inl OperationalError
         else order_by_limit (\<lambda>z. ST_Distance (zone_location z) point) limit query)"

definition get_nearby_hospital_zones ::
  "distance \<Rightarrow> database \<Rightarrow> real \<Rightarrow> real \<Rightarrow> real \<Rightarrow> int \<Rightarrow> exn + Zone list" where
  "get_nearby_hospital_zones ST_Distance db latitude longitude radius_meters limit =
     (let point = ST_SetSRID (ST_MakePoint longitude latitude) 4326;
          query = filter (\<lambda>z. ST_DWithin ST_Distance (zone_location z) point radius_meters)
                    (hospital_zones db)
      in if hospital_zones_table \<in> set (unavailable db) then Inl OperationalError
         else order_by_limit (\<lambda>z. ST_Distance (zone_location z) point) limit query)"

section \<open>Writing a camera row\<close>

text \<open>
  What the \<open>INSERT\<close> of a \<open>SpeedCamera\<close> does, from the column declarations: an
  \<open>Integer\<close> column holds 32 bits, \<open>String(50)\<close> holds at most 50 characters,
  \<open>Numeric(3, 2)\<close> rounds to two decimals and holds less than 10 in absolute value
  (\<open>numeric_3_2\<close> above), and the check constraint \<open>speed_cameras_confidence_check\<close>
  wants the score between 0 and 1. A column the constructor did not set (here
  \<open>None\<close>) takes its declared default: \<open>verified\<close> false, \<open>verification_count\<close> 0,
  \<open>confidence_score\<close> 0.50; the primary key is fresh.
\<close>

definition int4_ok :: "int \<Rightarrow> bool" where
  "int4_ok n \<longleftrightarrow> - (2 ^ 31) \<le> n \<and> n < 2 ^ 31"

definition speed_cameras_confidence_check :: "SpeedCamera \<Rightarrow> bool" where
  "speed_cameras_confidence_check c =
     (case cam_confidence_score c of None \<Rightarrow> True | Some s \<Rightarrow> 0 \<le> s \<and> s \<le> 1)"




definition column_default :: "'a \<Rightarrow> 'a option \<Rightarrow> 'a option" where
  "column_default d v = (case v of None \<Rightarrow> Some d | Some x \<Rightarrow> Some x)"

definition flush_speed_camera :: "database \<Rightarrow> SpeedCamera \<Rightarrow> exn + (SpeedCamera \<times> database)" where
  "flush_speed_camera db camera =
     (if speed_cameras_table \<in> set (unavailable db) then Inl OperationalError
      else if \<not> int4_ok (cam_speed_limit_kmh camera) \<or> length (cam_camera_type camera) > 50
              \<or> (case cam_direction_degrees camera of None \<Rightarrow> False | Some d \<Rightarrow> \<not> int4_ok d)
              \<or> (case cam_verification_count camera of None \<Rightarrow> False | Some n \<Rightarrow> \<not> int4_ok n)
      then Inl DataError
      else case numeric_3_2 (case cam_confidence_score camera of None \<Rightarrow> 0.50 | Some s \<Rightarrow> s) of
        Inl e \<Rightarrow> Inl e
      | Inr score \<Rightarrow>
          (let row = camera\<lparr>cam_id := next_uuid db,
                            cam_verified := column_default False (cam_verified camera),
                            cam_verification_count :=
                              column_default 0 (cam_verification_count camera),
                            cam_confidence_score := Some score\<rparr>
           in if \<not> speed_cameras_confidence_check row then Inl IntegrityError
              else Inr (row, db\<lparr>speed_cameras := speed_cameras db @ [row],
                                 next_uuid := Suc (next_uuid db)\<rparr>)))"

text \<open>
  \<open>create_speed_camera\<close> (database/queries.py): build the object, add it, flush,
  refresh, return it. Before the flush the object has no key; the model writes 0
  there and the flush replaces it.
\<close>

definition create_speed_camera ::
  "database \<Rightarrow> real \<Rightarrow> real \<Rightarrow> int \<Rightarrow> string \<Rightarrow> int option \<Rightarrow> real \<Rightarrow> uuid option
     \<Rightarrow> string option \<Rightarrow> exn + (SpeedCamera \<times> database)" where
  "create_speed_camera db latitude longitude speed_limit_kmh camera_type direction_degrees
       confidence_score reported_by notes =
     (let point = ST_SetSRID (ST_MakePoint longitude latitude) 4326;
          camera = \<lparr>cam_id = 0, cam_location = point, cam_speed_limit_kmh = speed_limit_kmh,
                    cam_camera_type = camera_type, cam_direction_degrees = direction_degrees,
                    cam_verified = None, cam_verification_count = None,
                    cam_confidence_score = Some confidence_score,
                    cam_reported_by = reported_by, cam_notes = notes\<rparr>
      in flush_speed_camera db camera)"

section \<open>Camera endpoints (backend/main.py)\<close>

text \<open>
  \<open>CreateCameraRequest\<close>: the request body after pydantic has checked the field
  types. A body whose fields have other types never reaches the handler.
\<close>

record CreateCameraRequest =
  req_latitude :: real
  req_longitude :: real
  req_speed_limit_kmh :: int
  req_camera_type :: string
  req_direction_degrees :: "int option"
  req_notes :: "string option"

text \<open>
  \<open>create_camera\<close>, \<open>POST /api/cameras\<close>. \<open>current_user\<close> is the key of the user
  that \<open>get_current_user\<close> authenticated. An endpoint returns its outcome and the
  database it leaves; on an exception the handler rolls back and answers 500. The
  response lists the fields of the returned row.
\<close>

definition create_camera ::
  "database \<Rightarrow> CreateCameraRequest \<Rightarrow> uuid \<Rightarrow> (exn + SpeedCamera) \<times> database" where
  "create_camera db request current_user =
     (case create_speed_camera db (req_latitude request) (req_longitude request)
             (req_speed_limit_kmh request) (req_camera_type request)
             (req_direction_degrees request) 0.50 (Some current_user) (req_notes request) of
        Inl e \<Rightarrow> (Inl (HTTPException 500), db)
      | Inr (camera, db') \<Rightarrow> (Inr camera, db'))"

text \<open>
  \<open>delete_camera\<close>, \<open>DELETE /api/cameras/{camera_id}\<close>. \<open>UUID\<close> is Python's parser of
  the path parameter, \<open>None\<close> where it raises \<open>ValueError\<close>.
\<close>

definition delete_camera ::
  "(string \<Rightarrow> uuid option) \<Rightarrow> database \<Rightarrow> string \<Rightarrow> uuid \<Rightarrow> (exn + unit) \<times> database" where
  "delete_camera UUID db camera_id current_user =
     (case UUID camera_id of
        None \<Rightarrow> (Inl (HTTPException 400), db)
      | Some cam_uuid \<Rightarrow>
          if speed_cameras_table \<in> set (unavailable db) then (Inl OperationalError, db)
          else (case filter (\<lambda>c. cam_id c = cam_uuid) (speed_cameras db) of
                  [] \<Rightarrow> (Inl (HTTPException 404), db)
                | [camera] \<Rightarrow>
                    if cam_reported_by camera \<noteq> Some current_user
                    then (Inl (HTTPException 403), db)
                    else (Inr (),
                          db\<lparr>speed_cameras :=
                               filter (\<lambda>c. cam_id c \<noteq> cam_id camera) (speed_cameras db)\<rparr>)
                | _ \<Rightarrow> (Inl MultipleResultsFound, db)))"

section \<open>Bulk import of cameras (database/import_data.py)\<close>

text \<open>
  One entry of the \<open>cameras\<close> array of the JSON file, after Python's conversions, which
  are not modelled: each field holds what the named expression gives.
  \<^item> \<open>cd_latitude\<close>, \<open>cd_longitude\<close>: \<open>float(cam_data.get(..., 0))\<close>, \<open>None\<close> where
    \<open>float\<close> raises;
  \<^item> \<open>cd_speed_limit\<close>: \<open>int(speed_limit_str)\<close>, \<open>None\<close> where the string is \<open>/\<close> or
    \<open>int\<close> raises;
  \<^item> \<open>cd_camera_type\<close>: \<open>cam_data.get('camera_type', 'G')\<close>;
  \<^item> \<open>cd_direction\<close>: \<open>int(direction_str)\<close>, \<open>None\<close> where \<open>direction_str\<close> is empty or
    missing or \<open>int\<close> raises;
  \<^item> \<open>cd_street\<close>, \<open>cd_city\<close>: \<open>cam_data.get(..., 'Unknown')\<close> as the f-string prints
    them.
\<close>

record cam_data =
  cd_latitude :: "real option"
  cd_longitude :: "real option"
  cd_speed_limit :: "int option"
  cd_camera_type :: string
  cd_direction :: "int option"
  cd_street :: string
  cd_city :: string

definition camera_type_map :: "(string \<times> string) list" where
  "camera_type_map = [(''G'', ''fixed''), (''M'', ''mobile''), (''A'', ''average_speed'')]"

text \<open>
  The session is made with \<open>autoflush=False\<close>: an object that was added is written
  to the table by the next commit, and a query before that commit does not see it.
  The loop state holds the database, the objects added and not yet written, and the
  two counters.
\<close>

record import_state =
  st_db :: database
  st_pending :: "SpeedCamera list"
  st_imported_count :: nat
  st_skipped_count :: nat

text \<open>
  \<open>db.commit()\<close> writes the pending objects in the order they were added. When a
  write fails inside the loop the handler counts a skip and goes on, but the session
  then refuses every later statement and the final commit raises: the import as a
  whole raises, which is what \<open>Inl\<close> stands for here.
\<close>

fun flush_all :: "database \<Rightarrow> SpeedCamera list \<Rightarrow> exn + database" where
  "flush_all db [] = Inr db"
| "flush_all db (camera # pending) =
     (case flush_speed_camera db camera of
        Inl e \<Rightarrow> Inl e
      | Inr (row, db') \<Rightarrow> flush_all db' pending)"

definition commit :: "import_state \<Rightarrow> exn + import_state" where
  "commit st =
     (case flush_all (st_db st) (st_pending st) of
        Inl e \<Rightarrow> Inl e
      | Inr db' \<Rightarrow> Inr (st\<lparr>st_db := db', st_pending := []\<rparr>))"

definition skip :: "import_state \<Rightarrow> import_state" where
  "skip st = st\<lparr>st_skipped_count := Suc (st_skipped_count st)\<rparr>"

text \<open>The body of the loop over \<open>cameras_data\<close>.\<close>

definition import_camera :: "distance \<Rightarrow> import_state \<Rightarrow> cam_data \<Rightarrow> exn + import_state" where
  "import_camera ST_Distance st cd =
     (case (cd_latitude cd, cd_longitude cd) of
        (Some latitude, Some longitude) \<Rightarrow>
          if \<not> (-90 \<le> latitude \<and> latitude \<le> 90) \<or> \<not> (-180 \<le> longitude \<and> longitude \<le> 180)
          then Inr (skip st)
          else
            (let speed_limit_kmh = (case cd_speed_limit cd of Some n \<Rightarrow> n | None \<Rightarrow> 60);
                 camera_type = (case map_of camera_type_map (cd_camera_type cd) of
                                  Some t \<Rightarrow> t | None \<Rightarrow> ''fixed'');
                 direction_degrees =
                   (case cd_direction cd of
                      None \<Rightarrow> None
                    | Some d \<Rightarrow> if \<not> (0 \<le> d \<and> d \<le> 360) then None else Some d);
                 point_sql = ST_SetSRID (ST_MakePoint longitude latitude) 4326
             in if speed_cameras_table \<in> set (unavailable (st_db st)) then Inr (skip st)
                else if list_ex (\<lambda>c. ST_DWithin ST_Distance (cam_location c) point_sql 10.0)
                          (speed_cameras (st_db st))
                then Inr (skip st)
                else
                  (let camera =
                         \<lparr>cam_id = 0, cam_location = point_sql,
                          cam_speed_limit_kmh = speed_limit_kmh, cam_camera_type = camera_type,
                          cam_direction_degrees = direction_degrees, cam_verified = Some True,
                          cam_verification_count = Some 1, cam_confidence_score = Some 0.80,
                          cam_reported_by = None,
                          cam_notes = Some (''Imported from '' @ cd_street cd @ '', ''
                                             @ cd_city cd)\<rparr>;
                       st' = st\<lparr>st_pending := st_pending st @ [camera],
                                 st_imported_count := Suc (st_imported_count st)\<rparr>
                   in if st_imported_count st' mod 100 = 0 then commit st' else Inr st'))
      | _ \<Rightarrow> Inr (skip st))"

fun import_cameras_loop ::
  "distance \<Rightarrow> import_state \<Rightarrow> cam_data list \<Rightarrow> exn + import_state" where
  "import_cameras_loop ST_Distance st [] = Inr st"
| "import_cameras_loop ST_Distance st (cd # cameras_data) =
     (case import_camera ST_Distance st cd of
        Inl e \<Rightarrow> Inl e
      | Inr st' \<Rightarrow> import_cameras_loop ST_Distance st' cameras_data)"

text \<open>
  \<open>import_speed_cameras\<close>, given the \<open>cameras\<close> array of the file: the database after
  the final commit and the number of cameras imported.
\<close>

definition import_speed_cameras ::
  "distance \<Rightarrow> database \<Rightarrow> cam_data list \<Rightarrow> exn + (database \<times> nat)" where
  "import_speed_cameras ST_Distance db cameras_data =
     (case import_cameras_loop ST_Distance
             \<lparr>st_db = db, st_pending = [], st_imported_count = 0, st_skipped_count = 0\<rparr>
             cameras_data of
        Inl e \<Rightarrow> Inl e
      | Inr st \<Rightarrow>
          (case commit st of
             Inl e \<Rightarrow> Inl e
           | Inr st' \<Rightarrow> Inr (st_db st', st_imported_count st')))"

section \<open>Bulk import of zones (database/import_zones.py)\<close>





text \<open>
  The table the import works on: \<open>school_zones\<close> when \<open>zone_type\<close> is \<open>school\<close>,
  \<open>hospital_zones\<close> otherwise.
\<close>

definition zone_relation :: "string \<Rightarrow> relation" where
  "zone_relation zone_type =
     (if zone_type = ''school'' then school_zones_table else hospital_zones_table)"

definition zones_of :: "string \<Rightarrow> database \<Rightarrow> Zone list" where
  "zones_of zone_type db =
     (if zone_type = ''school'' then school_zones db else hospital_zones db)"

definition zones_update :: "string \<Rightarrow> Zone list \<Rightarrow> database \<Rightarrow> database" where
  "zones_update zone_type rows db =
     (if zone_type = ''school'' then db\<lparr>school_zones := rows\<rparr>
      else db\<lparr>hospital_zones := rows\<rparr>)"



record zone_import_state =
  zst_db :: database
  zst_pending :: "Zone list"
  zst_seen_ids :: "string set"
  zst_imported_count :: nat
  zst_skipped_count :: nat
  zst_duplicate_count :: nat






section \<open>Combined navigation data (backend/main.py)\<close>

text \<open>
  The entries of the response. \<open>float(x.confidence_score)\<close> raises \<open>TypeError\<close> on a
  NULL score. The coordinates of a hazard are read back with \<open>ST_Y\<close> and \<open>ST_X\<close>; the
  entry of a hazardous road carries the GeoJSON text of its segment, for which the
  segment itself stands here.
\<close>

record camera_item =
  ci_id :: uuid
  ci_speed_limit_kmh :: int
  ci_camera_type :: string
  ci_direction_degrees :: "int option"
  ci_verified :: "bool option"
  ci_confidence_score :: real

record speed_limit_item =
  li_id :: uuid
  li_speed_limit_kmh :: int
  li_road_name :: "string option"
  li_road_type :: "string option"
  li_verified :: "bool option"
  li_confidence_score :: real

record hazard_item =
  hi_id :: uuid
  hi_hazard_type :: string
  hi_severity :: string
  hi_confidence_score :: real
  hi_is_active :: "bool option"
  hi_detected_at :: int
  hi_image_url :: "string option"
  hi_latitude :: real
  hi_longitude :: real
  hi_description :: "string option"

record road_item =
  ri_id :: uuid
  ri_hazard_type :: string
  ri_severity :: "string option"
  ri_road_name :: "string option"
  ri_confidence_score :: real
  ri_geojson :: geography

record navigation_data =
  nav_cameras :: "camera_item list"
  nav_speed_limits :: "speed_limit_item list"
  nav_hazards :: "hazard_item list"
  nav_hazardous_roads :: "road_item list"
  nav_counts :: "nat \<times> nat \<times> nat \<times> nat"

definition format_camera :: "SpeedCamera \<Rightarrow> exn + camera_item" where
  "format_camera camera =
     (case cam_confidence_score camera of
        None \<Rightarrow> Inl TypeError
      | Some score \<Rightarrow>
          Inr \<lparr>ci_id = cam_id camera, ci_speed_limit_kmh = cam_speed_limit_kmh camera,
               ci_camera_type = cam_camera_type camera,
               ci_direction_degrees = cam_direction_degrees camera,
               ci_verified = cam_verified camera, ci_confidence_score = score\<rparr>)"

definition format_speed_limit :: "RoadSpeedLimit \<Rightarrow> exn + speed_limit_item" where
  "format_speed_limit speed_limit =
     (case lim_confidence_score speed_limit of
        None \<Rightarrow> Inl TypeError
      | Some score \<Rightarrow>
          Inr \<lparr>li_id = lim_id speed_limit, li_speed_limit_kmh = lim_speed_limit_kmh speed_limit,
               li_road_name = lim_road_name speed_limit,
               li_road_type = lim_road_type speed_limit,
               li_verified = lim_verified speed_limit, li_confidence_score = score\<rparr>)"

definition format_hazard :: "HazardDetection \<Rightarrow> exn + hazard_item" where
  "format_hazard hazard =
     (case (haz_location hazard, haz_confidence_score hazard) of
        (Point lon lat, Some score) \<Rightarrow>
          Inr \<lparr>hi_id = haz_id hazard, hi_hazard_type = haz_hazard_type hazard,
               hi_severity = haz_severity hazard, hi_confidence_score = score,
               hi_is_active = haz_is_active hazard, hi_detected_at = haz_detected_at hazard,
               hi_image_url = haz_image_url hazard, hi_latitude = lat, hi_longitude = lon,
               hi_description = haz_description hazard\<rparr>
      | _ \<Rightarrow> Inl TypeError)"

definition format_road :: "HazardousRoadSegment \<Rightarrow> exn + road_item" where
  "format_road road =
     (case seg_confidence_score road of
        None \<Rightarrow> Inl TypeError
      | Some score \<Rightarrow>
          Inr \<lparr>ri_id = seg_id road, ri_hazard_type = seg_hazard_type road,
               ri_severity = seg_severity road, ri_road_name = seg_road_name road,
               ri_confidence_score = score, ri_geojson = seg_road_segment road\<rparr>)"

text \<open>A \<open>for\<close> loop that appends one formatted entry per row and stops where one raises.\<close>

fun format_all :: "('a \<Rightarrow> exn + 'b) \<Rightarrow> 'a list \<Rightarrow> exn + 'b list" where
  "format_all f [] = Inr []"
| "format_all f (x # xs) =
     (case f x of
        Inl e \<Rightarrow> Inl e
      | Inr y \<Rightarrow> (case format_all f xs of Inl e \<Rightarrow> Inl e | Inr ys \<Rightarrow> Inr (y # ys)))"

text \<open>
  The body of the \<open>try\<close> block of \<open>get_navigation_data_nearby\<close>: the four queries in
  the order of the source, each with its default \<open>limit\<close> of 50, then the four
  formatting loops.
\<close>

definition navigation_data_nearby ::
  "distance \<Rightarrow> int \<Rightarrow> database \<Rightarrow> real \<Rightarrow> real \<Rightarrow> real \<Rightarrow> exn + navigation_data" where
  "navigation_data_nearby ST_Distance now db latitude longitude radius_meters =
     (case get_nearby_speed_cameras ST_Distance db latitude longitude radius_meters 0.0 False 50 of
        Inl e \<Rightarrow> Inl e
      | Inr cameras \<Rightarrow>
     (case get_nearby_speed_limits ST_Distance db latitude longitude radius_meters 0.0 False 50 of
        Inl e \<Rightarrow> Inl e
      | Inr speed_limits \<Rightarrow>
     (case get_nearby_hazards ST_Distance now db latitude longitude radius_meters 0.0 True 50 of
        Inl e \<Rightarrow> Inl e
      | Inr hazards \<Rightarrow>
     (case get_nearby_hazardous_roads ST_Distance db latitude longitude radius_meters 0.0 50 of
        Inl e \<Rightarrow> Inl e
      | Inr hazardous_roads \<Rightarrow>
     (case format_all format_camera cameras of
        Inl e \<Rightarrow> Inl e
      | Inr cameras_data \<Rightarrow>
     (case format_all format_speed_limit speed_limits of
        Inl e \<Rightarrow> Inl e
      | Inr speed_limits_data \<Rightarrow>
     (case format_all format_hazard hazards of
        Inl e \<Rightarrow> Inl e
      | Inr hazards_data \<Rightarrow>
     (case format_all format_road hazardous_roads of
        Inl e \<Rightarrow> Inl e
      | Inr roads_data \<Rightarrow>
          Inr \<lparr>nav_cameras = cameras_data, nav_speed_limits = speed_limits_data,
               nav_hazards = hazards_data, nav_hazardous_roads = roads_data,
               nav_counts = (length cameras_data, length speed_limits_data,
                             length hazards_data, length roads_data)\<rparr>))))))))"

text \<open>
  \<open>get_navigation_data_nearby\<close>, \<open>GET /api/navigation/nearby\<close>. FastAPI checks the
  bounds declared with \<open>Query\<close> before the handler runs and answers 422; the handler
  turns every exception of its body into a 500.
\<close>

definition get_navigation_data_nearby ::
  "distance \<Rightarrow> int \<Rightarrow> database \<Rightarrow> real \<Rightarrow> real \<Rightarrow> real \<Rightarrow> exn + navigation_data" where
  "get_navigation_data_nearby ST_Distance now db latitude longitude radius_meters =
     (if \<not> (-90 \<le> latitude \<and> latitude \<le> 90) \<or> \<not> (-180 \<le> longitude \<and> longitude \<le> 180)
         \<or> \<not> (0 < radius_meters \<and> radius_meters \<le> 100000)
      then Inl (HTTPException 422)
      else case navigation_data_nearby ST_Distance now db latitude longitude radius_meters of
             Inl e \<Rightarrow> Inl (HTTPException 500)
           | Inr data \<Rightarrow> Inr data)"

section \<open>The example router (database/example_usage.py)\<close>

text \<open>
  \<open>CreateSpeedCameraRequest\<close>, the request model of the example router's
  \<open>POST /cameras\<close>: the same fields as \<open>CreateCameraRequest\<close> and a confidence score,
  each with the bounds its \<open>Field\<close> declares. The predicate says that a body passes.
\<close>

definition CreateSpeedCameraRequest_valid :: "CreateCameraRequest \<Rightarrow> real \<Rightarrow> bool" where
  "CreateSpeedCameraRequest_valid request confidence_score \<longleftrightarrow>
     -90 \<le> req_latitude request \<and> req_latitude request \<le> 90 \<and>
     -180 \<le> req_longitude request \<and> req_longitude request \<le> 180 \<and>
     0 < req_speed_limit_kmh request \<and> req_speed_limit_kmh request \<le> 200 \<and>
     req_camera_type request \<in> set [''fixed'', ''mobile'', ''average_speed''] \<and>
     (case req_direction_degrees request of None \<Rightarrow> True | Some d \<Rightarrow> 0 \<le> d \<and> d \<le> 360) \<and>
     0.0 \<le> confidence_score \<and> confidence_score \<le> 1.0"

section \<open>Notions used in the statements\<close>

text \<open>
  The row that \<open>create_camera\<close> stores for a request, with its key; and when the
  values of a request fit the columns of the table.
\<close>

definition reported_camera :: "CreateCameraRequest \<Rightarrow> uuid \<Rightarrow> uuid \<Rightarrow> SpeedCamera" where
  "reported_camera request current_user key =
     \<lparr>cam_id = key,
      cam_location = ST_SetSRID (ST_MakePoint (req_longitude request) (req_latitude request)) 4326,
      cam_speed_limit_kmh = req_speed_limit_kmh request,
      cam_camera_type = req_camera_type request,
      cam_direction_degrees = req_direction_degrees request,
      cam_verified = Some False, cam_verification_count = Some 0,
      cam_confidence_score = Some 0.50, cam_reported_by = Some current_user,
      cam_notes = req_notes request\<rparr>"

definition fits_columns :: "CreateCameraRequest \<Rightarrow> bool" where
  "fits_columns request \<longleftrightarrow>
     int4_ok (req_speed_limit_kmh request) \<and> length (req_camera_type request) \<le> 50 \<and>
     (case req_direction_degrees request of None \<Rightarrow> True | Some d \<Rightarrow> int4_ok d)"

text \<open>
  The object that the loop body of \<open>import_speed_cameras\<close> constructs for an entry
  with the given coordinates, and what marks a camera as written by the import.
\<close>

definition constructed_camera :: "cam_data \<Rightarrow> real \<Rightarrow> real \<Rightarrow> SpeedCamera" where
  "constructed_camera cd latitude longitude =
     \<lparr>cam_id = 0, cam_location = ST_SetSRID (ST_MakePoint longitude latitude) 4326,
      cam_speed_limit_kmh = (case cd_speed_limit cd of Some n \<Rightarrow> n | None \<Rightarrow> 60),
      cam_camera_type = (case map_of camera_type_map (cd_camera_type cd) of
                           Some t \<Rightarrow> t | None \<Rightarrow> ''fixed''),
      cam_direction_degrees =
        (case cd_direction cd of
           None \<Rightarrow> None
         | Some d \<Rightarrow> if \<not> (0 \<le> d \<and> d \<le> 360) then None else Some d),
      cam_verified = Some True, cam_verification_count = Some 1,
      cam_confidence_score = Some 0.80, cam_reported_by = None,
      cam_notes = Some (''Imported from '' @ cd_street cd @ '', '' @ cd_city cd)\<rparr>"

definition imported_row :: "SpeedCamera \<Rightarrow> bool" where
  "imported_row c \<longleftrightarrow>
     cam_verified c = Some True \<and> cam_verification_count c = Some 1 \<and>
     cam_confidence_score c = Some 0.80 \<and> cam_reported_by c = None"

text \<open>
  What the results of the nearby queries have in common: the rows come from the table,
  lie within the radius, are in order of distance and are at most \<open>limit\<close>.
\<close>

definition nearby_result ::
  "distance \<Rightarrow> ('a \<Rightarrow> geography) \<Rightarrow> 'a list \<Rightarrow> geography \<Rightarrow> real \<Rightarrow> int \<Rightarrow> 'a list \<Rightarrow> bool" where
  "nearby_result ST_Distance location table point radius_meters limit rows \<longleftrightarrow>
     (\<forall>x \<in> set rows. x \<in> set table \<and> ST_Distance (location x) point \<le> radius_meters) \<and>
     sorted (map (\<lambda>x. ST_Distance (location x) point) rows) \<and>
     int (length rows) \<le> limit"

text \<open>
  The loop invariant of \<open>import_speed_cameras\<close>: the table is the table at the start
  followed by rows written by the import, every pending object has the import's
  marks, and the counter counts both.
\<close>

definition import_invariant :: "SpeedCamera list \<Rightarrow> import_state \<Rightarrow> bool" where
  "import_invariant stored st \<longleftrightarrow>
     (\<exists>rows. speed_cameras (st_db st) = stored @ rows \<and>
        (\<forall>c \<in> set rows. imported_row c) \<and>
        (\<forall>c \<in> set (st_pending st). imported_row c) \<and>
        length rows + length (st_pending st) = st_imported_count st)"

text \<open>
  What a stretch of the import loop does, from the state \<open>st\<close> to the state \<open>st'\<close>: the
  table keeps its rows and gets new ones at the end, and the rows written and the
  objects pending at \<open>st'\<close> are, by their locations and in order, the objects pending
  at \<open>st\<close> followed by new ones; no new one is within 10 metres of a camera that the
  table held at \<open>st\<close>.
\<close>

definition import_progress :: "distance \<Rightarrow> import_state \<Rightarrow> import_state \<Rightarrow> bool" where
  "import_progress ST_Distance st st' \<longleftrightarrow>
     (\<exists>rows new. speed_cameras (st_db st') = speed_cameras (st_db st) @ rows \<and>
        map cam_location (rows @ st_pending st') = map cam_location (st_pending st) @ new \<and>
        (\<forall>p \<in> set new. \<forall>c \<in> set (speed_cameras (st_db st)).
           \<not> ST_Distance (cam_location c) p \<le> 10))"



text \<open>
  What a stretch of the loop of \<open>import_zones\<close> does, from the state \<open>st\<close> to the state
  \<open>st'\<close>, when it constructs zones for the ids \<open>new\<close>: the table keeps its rows and gets
  new ones at the end, none with an \<open>osm_id\<close> that the table held; the rows written and
  the objects pending at \<open>st'\<close> are, by their \<open>osm_id\<close> and in order, the objects pending
  at \<open>st\<close> followed by zones for \<open>new\<close>; the counter counts them; the other zone table
  is as it was.
\<close>

definition zones_progress ::
  "string \<Rightarrow> zone_import_state \<Rightarrow> zone_import_state \<Rightarrow> string list \<Rightarrow> bool" where
  "zones_progress zone_type st st' new \<longleftrightarrow>
     (\<exists>rows. zones_of zone_type (zst_db st') = zones_of zone_type (zst_db st) @ rows \<and>
        (\<forall>r \<in> set rows. zone_osm_id r \<noteq> None \<longrightarrow>
            zone_osm_id r \<notin> set (map zone_osm_id (zones_of zone_type (zst_db st)))) \<and>
        (rows \<noteq> [] \<longrightarrow> zone_relation zone_type \<notin> set (unavailable (zst_db st))) \<and>
        map zone_osm_id (rows @ zst_pending st')
          = map zone_osm_id (zst_pending st) @ map Some new) \<and>
     zst_imported_count st' = zst_imported_count st + length new \<and>
     unavailable (zst_db st') = unavailable (zst_db st) \<and>
     (zone_type = ''school'' \<longrightarrow> hospital_zones (zst_db st') = hospital_zones (zst_db st)) \<and>
     (zone_type \<noteq> ''school'' \<longrightarrow> school_zones (zst_db st') = school_zones (zst_db st))"

section \<open>Example data\<close>

text \<open>
  A distance for the examples: the sum of the differences in degrees times the
  length of a degree in metres. Any other distance between points would do.
\<close>

fun example_distance :: distance where
  "example_distance (Point x y) (Point u v) = 111320 * (\<bar>x - u\<bar> + \<bar>y - v\<bar>)"
| "example_distance _ _ = 0"

definition example_camera ::
  "uuid \<Rightarrow> real \<Rightarrow> real \<Rightarrow> real option \<Rightarrow> uuid option \<Rightarrow> SpeedCamera" where
  "example_camera i latitude longitude confidence reporter =
     \<lparr>cam_id = i, cam_location = ST_MakePoint longitude latitude, cam_speed_limit_kmh = 60,
      cam_camera_type = ''fixed'', cam_direction_degrees = None, cam_verified = Some False,
      cam_verification_count = Some 0, cam_confidence_score = confidence,
      cam_reported_by = reporter, cam_notes = None\<rparr>"

definition example_hazard ::
  "uuid \<Rightarrow> real \<Rightarrow> real \<Rightarrow> real option \<Rightarrow> bool option \<Rightarrow> int option \<Rightarrow> HazardDetection" where
  "example_hazard i latitude longitude confidence active expires =
     \<lparr>haz_id = i, haz_location = ST_MakePoint longitude latitude,
      haz_hazard_type = ''pothole'', haz_severity = ''medium'',
      haz_confidence_score = confidence, haz_detected_by = None, haz_detected_at = 1000,
      haz_expires_at = expires, haz_verified = Some False, haz_verification_count = Some 0,
      haz_is_active = active, haz_description = None, haz_image_url = None\<rparr>"

definition empty_database :: database where
  "empty_database =
     \<lparr>speed_cameras = [], road_speed_limits = [], hazard_detections = [],
      hazardous_road_segments = [], school_zones = [], hospital_zones = [],
      unavailable = [], next_uuid = 0\<rparr>"

definition example_database :: database where
  "example_database = empty_database
     \<lparr>speed_cameras :=
        [example_camera 1 13.09 80.2705 (Some 0.8) None,
         example_camera 2 13.0835 80.2705 (Some 0.3) (Some 7),
         example_camera 3 13.0827 80.2707 (Some 0.5) (Some 8),
         example_camera 4 13.0831 80.2705 None None],
      hazard_detections :=
        [example_hazard 5 13.0832 80.2705 (Some 0.9) (Some True) (Some 2000),
         example_hazard 6 13.0831 80.2705 (Some 0.6) (Some True) None,
         example_hazard 7 13.0830 80.2705 (Some 0.7) (Some True) (Some 1500),
         example_hazard 8 13.0830 80.2706 (Some 0.7) (Some False) None],
      next_uuid := 9\<rparr>"

definition example_cam_data :: "real \<Rightarrow> real \<Rightarrow> cam_data" where
  "example_cam_data latitude longitude =
     \<lparr>cd_latitude = Some latitude, cd_longitude = Some longitude, cd_speed_limit = Some 60,
      cd_camera_type = ''G'', cd_direction = None, cd_street = ''Anna Salai'',
      cd_city = ''Chennai''\<rparr>"

definition example_request :: CreateCameraRequest where
  "example_request =
     \<lparr>req_latitude = 13.0827, req_longitude = 80.2707, req_speed_limit_kmh = 60,
      req_camera_type = ''fixed'', req_direction_degrees = None, req_notes = None\<rparr>"

definition out_of_range_request :: CreateCameraRequest where
  "out_of_range_request =
     \<lparr>req_latitude = 13.0827, req_longitude = 80.2707, req_speed_limit_kmh = 500,
      req_camera_type = ''banana'', req_direction_degrees = Some 720, req_notes = None\<rparr>"

text \<open>The example database with a speed limit, a hazardous road and three zones.\<close>

definition example_speed_limit :: "uuid \<Rightarrow> real option \<Rightarrow> RoadSpeedLimit" where
  "example_speed_limit i confidence =
     \<lparr>lim_id = i, lim_road_segment = LineString [(80.27, 13.08), (80.27, 13.09)],
      lim_speed_limit_kmh = 40, lim_road_name = None, lim_road_type = Some ''urban'',
      lim_direction = Some ''both'', lim_verified = Some True,
      lim_verification_count = Some 1, lim_confidence_score = confidence,
      lim_reported_by = None, lim_notes = None\<rparr>"

definition example_road :: "uuid \<Rightarrow> real option \<Rightarrow> HazardousRoadSegment" where
  "example_road i confidence =
     \<lparr>seg_id = i, seg_road_segment = LineString [(80.27, 13.08), (80.27, 13.09)],
      seg_hazard_type = ''potholes'', seg_severity = Some ''medium'', seg_road_name = None,
      seg_osm_id = None, seg_confidence_score = confidence, seg_reported_by = None,
      seg_notes = None\<rparr>"

definition example_zone :: "uuid \<Rightarrow> real \<Rightarrow> real \<Rightarrow> Zone" where
  "example_zone i latitude longitude =
     \<lparr>zone_id = i, zone_location = ST_MakePoint longitude latitude, zone_name = Some ''Zone'',
      zone_address = None, zone_osm_id = None\<rparr>"

definition example_database_with_roads :: database where
  "example_database_with_roads = example_database
     \<lparr>road_speed_limits := [example_speed_limit 10 (Some 0.85)],
      hazardous_road_segments := [example_road 11 (Some 0.5)],
      school_zones := [example_zone 12 13.0832 80.2705, example_zone 13 13.0831 80.2705],
      hospital_zones := [example_zone 14 13.0829 80.2705],
      next_uuid := 15\<rparr>"

text \<open>A parser of path parameters for the examples: it knows three keys.\<close>

definition example_UUID :: "string \<Rightarrow> uuid option" where
  "example_UUID s =
     map_of [(''00000000-0000-4000-8000-000000000001'', 1),
             (''00000000-0000-4000-8000-000000000002'', 2),
             (''00000000-0000-4000-8000-000000000009'', 9)] s"

text \<open>The database after the import of one entry into the empty database.\<close>

definition example_imported_database :: database where
  "example_imported_database = empty_database
     \<lparr>speed_cameras :=
        [(constructed_camera (example_cam_data 13.0827 80.2707) 13.0827 80.2707)\<lparr>cam_id := 0\<rparr>],
      next_uuid := 1\<rparr>"

text \<open>
  A state of the import loop in a later run over that database: one entry far from the
  stored camera has been added and is pending. And the database after that run.
\<close>

definition example_import_state :: import_state where
  "example_import_state =
     \<lparr>st_db = example_imported_database,
      st_pending = [constructed_camera (example_cam_data 13.09 80.28) 13.09 80.28],
      st_imported_count = 1, st_skipped_count = 0\<rparr>"

definition example_later_database :: database where
  "example_later_database = example_imported_database
     \<lparr>speed_cameras := speed_cameras example_imported_database @
        [(constructed_camera (example_cam_data 13.09 80.28) 13.09 80.28)\<lparr>cam_id := 1\<rparr>],
      next_uuid := 2\<rparr>"






text \<open>The example database at a moment when the hazards table cannot be read.\<close>

definition example_database_without_hazards :: database where
  "example_database_without_hazards =
     example_database\<lparr>unavailable := [hazard_detections_table]\<rparr>"

section \<open>Properties of the nearby queries\<close>

lemma order_by_limit_Inr:
  assumes "order_by_limit key limit rows = Inr xs"
  shows "set xs \<subseteq> set rows" and "sorted (map key xs)" and "int (length xs) \<le> limit"
proof -
  from assms have lim: "0 \<le> limit" and xs: "xs = take (nat limit) (sort_key key rows)"
    by (auto simp: order_by_limit_def split: if_splits)
  show "set xs \<subseteq> set rows"
    using set_take_subset [of "nat limit" "sort_key key rows"] by (simp add: xs)
  have "sorted (take (nat limit) (map key (sort_key key rows)))"
    by (rule sorted_wrt_take) simp
  then show "sorted (map key xs)" by (simp add: xs take_map)
  show "int (length xs) \<le> limit" using lim by (simp add: xs)
qed

lemma order_by_limit_total:
  "0 \<le> limit \<Longrightarrow> \<exists>xs. order_by_limit key limit rows = Inr xs"
  by (simp add: order_by_limit_def)

lemma order_by_limit_all:
  assumes "order_by_limit key limit rows = Inr xs" and "int (length rows) \<le> limit"
  shows "set xs = set rows"
proof -
  from assms have xs: "xs = take (nat limit) (sort_key key rows)"
    by (auto simp: order_by_limit_def split: if_splits)
  have "length (sort_key key rows) \<le> nat limit" using assms(2) by simp
  then show ?thesis by (simp add: xs)
qed

lemma get_nearby_speed_cameras_Inr:
  assumes "get_nearby_speed_cameras ST_Distance db latitude longitude radius_meters min_confidence verified_only limit = Inr rows"
  shows "order_by_limit (\<lambda>x. ST_Distance (cam_location x) (ST_SetSRID (ST_MakePoint longitude latitude) 4326)) limit
           (filter (\<lambda>x. ST_Distance (cam_location x) (ST_SetSRID (ST_MakePoint longitude latitude) 4326) \<le> radius_meters
                \<and> (min_confidence > 0 \<longrightarrow> sql_ge (cam_confidence_score x) (round_2 min_confidence))
                \<and> (verified_only \<longrightarrow> sql_is_true (cam_verified x)))
              (speed_cameras db)) = Inr rows"
    and "0 < min_confidence \<longrightarrow> \<bar>round_2 min_confidence\<bar> < 10"
  using assms
  by (auto simp: get_nearby_speed_cameras_def Let_def ST_DWithin_def split: if_splits cong: conj_cong)

lemma get_nearby_speed_cameras_total:
  "speed_cameras_table \<notin> set (unavailable db) \<Longrightarrow> 0 \<le> limit \<Longrightarrow>
   (0 < min_confidence \<longrightarrow> \<bar>round_2 min_confidence\<bar> < 10) \<Longrightarrow>
   \<exists>rows. get_nearby_speed_cameras ST_Distance db latitude longitude radius_meters min_confidence verified_only limit = Inr rows"
  by (simp add: get_nearby_speed_cameras_def Let_def order_by_limit_def)

lemma get_nearby_speed_cameras_result:
  assumes "get_nearby_speed_cameras ST_Distance db latitude longitude radius_meters min_confidence verified_only limit = Inr rows"
  shows "nearby_result ST_Distance cam_location (speed_cameras db) (ST_SetSRID (ST_MakePoint longitude latitude) 4326)
           radius_meters limit rows"
  using order_by_limit_Inr [OF get_nearby_speed_cameras_Inr(1) [OF assms]]
  unfolding nearby_result_def by auto

lemma get_nearby_speed_limits_Inr:
  assumes "get_nearby_speed_limits ST_Distance db latitude longitude radius_meters min_confidence verified_only limit = Inr rows"
  shows "order_by_limit (\<lambda>x. ST_Distance (lim_road_segment x) (ST_SetSRID (ST_MakePoint longitude latitude) 4326)) limit
           (filter (\<lambda>x. ST_Distance (lim_road_segment x) (ST_SetSRID (ST_MakePoint longitude latitude) 4326) \<le> radius_meters
                \<and> (min_confidence > 0 \<longrightarrow> sql_ge (lim_confidence_score x) (round_2 min_confidence))
                \<and> (verified_only \<longrightarrow> sql_is_true (lim_verified x)))
              (road_speed_limits db)) = Inr rows"
    and "0 < min_confidence \<longrightarrow> \<bar>round_2 min_confidence\<bar> < 10"
  using assms
  by (auto simp: get_nearby_speed_limits_def Let_def ST_DWithin_def split: if_splits cong: conj_cong)

lemma get_nearby_speed_limits_total:
  "road_speed_limits_table \<notin> set (unavailable db) \<Longrightarrow> 0 \<le> limit \<Longrightarrow>
   (0 < min_confidence \<longrightarrow> \<bar>round_2 min_confidence\<bar> < 10) \<Longrightarrow>
   \<exists>rows. get_nearby_speed_limits ST_Distance db latitude longitude radius_meters min_confidence verified_only limit = Inr rows"
  by (simp add: get_nearby_speed_limits_def Let_def order_by_limit_def)

lemma get_nearby_speed_limits_result:
  assumes "get_nearby_speed_limits ST_Distance db latitude longitude radius_meters min_confidence verified_only limit = Inr rows"
  shows "nearby_result ST_Distance lim_road_segment (road_speed_limits db) (ST_SetSRID (ST_MakePoint longitude latitude) 4326)
           radius_meters limit rows"
  using order_by_limit_Inr [OF get_nearby_speed_limits_Inr(1) [OF assms]]
  unfolding nearby_result_def by auto

lemma get_nearby_hazards_Inr:
  assumes "get_nearby_hazards ST_Distance now db latitude longitude radius_meters min_confidence active_only limit = Inr rows"
  shows "order_by_limit (\<lambda>x. ST_Distance (haz_location x) (ST_SetSRID (ST_MakePoint longitude latitude) 4326)) limit
           (filter (\<lambda>x. ST_Distance (haz_location x) (ST_SetSRID (ST_MakePoint longitude latitude) 4326) \<le> radius_meters
                \<and> (min_confidence > 0 \<longrightarrow> sql_ge (haz_confidence_score x) (round_2 min_confidence))
                \<and> (active_only \<longrightarrow> hazard_active now x))
              (hazard_detections db)) = Inr rows"
    and "0 < min_confidence \<longrightarrow> \<bar>round_2 min_confidence\<bar> < 10"
  using assms
  by (auto simp: get_nearby_hazards_def Let_def ST_DWithin_def split: if_splits cong: conj_cong)

lemma get_nearby_hazards_total:
  "hazard_detections_table \<notin> set (unavailable db) \<Longrightarrow> 0 \<le> limit \<Longrightarrow>
   (0 < min_confidence \<longrightarrow> \<bar>round_2 min_confidence\<bar> < 10) \<Longrightarrow>
   \<exists>rows. get_nearby_hazards ST_Distance now db latitude longitude radius_meters min_confidence active_only limit = Inr rows"
  by (simp add: get_nearby_hazards_def Let_def order_by_limit_def)

lemma get_nearby_hazards_result:
  assumes "get_nearby_hazards ST_Distance now db latitude longitude radius_meters min_confidence active_only limit = Inr rows"
  shows "nearby_result ST_Distance haz_location (hazard_detections db) (ST_SetSRID (ST_MakePoint longitude latitude) 4326)
           radius_meters limit rows"
  using order_by_limit_Inr [OF get_nearby_hazards_Inr(1) [OF assms]]
  unfolding nearby_result_def by auto

lemma get_nearby_hazardous_roads_Inr:
  assumes "get_nearby_hazardous_roads ST_Distance db latitude longitude radius_meters min_confidence limit = Inr rows"
  shows "order_by_limit (\<lambda>x. ST_Distance (seg_road_segment x) (ST_SetSRID (ST_MakePoint longitude latitude) 4326)) limit
           (filter (\<lambda>x. ST_Distance (seg_road_segment x) (ST_SetSRID (ST_MakePoint longitude latitude) 4326) \<le> radius_meters
                \<and> (min_confidence > 0 \<longrightarrow> sql_ge (seg_confidence_score x) (round_2 min_confidence)))
              (hazardous_road_segments db)) = Inr rows"
    and "0 < min_confidence \<longrightarrow> \<bar>round_2 min_confidence\<bar> < 10"
  using assms
  by (auto simp: get_nearby_hazardous_roads_def Let_def ST_DWithin_def split: if_splits cong: conj_cong)

lemma get_nearby_hazardous_roads_total:
  "hazardous_road_segments_table \<notin> set (unavailable db) \<Longrightarrow> 0 \<le> limit \<Longrightarrow>
   (0 < min_confidence \<longrightarrow> \<bar>round_2 min_confidence\<bar> < 10) \<Longrightarrow>
   \<exists>rows. get_nearby_hazardous_roads ST_Distance db latitude longitude radius_meters min_confidence limit = Inr rows"
  by (simp add: get_nearby_hazardous_roads_def Let_def order_by_limit_def)

lemma get_nearby_hazardous_roads_result:
  assumes "get_nearby_hazardous_roads ST_Distance db latitude longitude radius_meters min_confidence limit = Inr rows"
  shows "nearby_result ST_Distance seg_road_segment (hazardous_road_segments db) (ST_SetSRID (ST_MakePoint longitude latitude) 4326)
           radius_meters limit rows"
  using order_by_limit_Inr [OF get_nearby_hazardous_roads_Inr(1) [OF assms]]
  unfolding nearby_result_def by auto

lemma get_nearby_school_zones_Inr:
  assumes "get_nearby_school_zones ST_Distance db latitude longitude radius_meters limit = Inr rows"
  shows "order_by_limit (\<lambda>x. ST_Distance (zone_location x) (ST_SetSRID (ST_MakePoint longitude latitude) 4326)) limit
           (filter (\<lambda>x. ST_Distance (zone_location x) (ST_SetSRID (ST_MakePoint longitude latitude) 4326) \<le> radius_meters)
              (school_zones db)) = Inr rows"
  using assms
  by (auto simp: get_nearby_school_zones_def Let_def ST_DWithin_def split: if_splits cong: conj_cong)

lemma get_nearby_school_zones_total:
  "school_zones_table \<notin> set (unavailable db) \<Longrightarrow> 0 \<le> limit \<Longrightarrow>
   \<exists>rows. get_nearby_school_zones ST_Distance db latitude longitude radius_meters limit = Inr rows"
  by (simp add: get_nearby_school_zones_def Let_def order_by_limit_def)

lemma get_nearby_school_zones_result:
  assumes "get_nearby_school_zones ST_Distance db latitude longitude radius_meters limit = Inr rows"
  shows "nearby_result ST_Distance zone_location (school_zones db) (ST_SetSRID (ST_MakePoint longitude latitude) 4326)
           radius_meters limit rows"
  using order_by_limit_Inr [OF get_nearby_school_zones_Inr(1) [OF assms]]
  unfolding nearby_result_def by auto

lemma get_nearby_hospital_zones_Inr:
  assumes "get_nearby_hospital_zones ST_Distance db latitude longitude radius_meters limit = Inr rows"
  shows "order_by_limit (\<lambda>x. ST_Distance (zone_location x) (ST_SetSRID (ST_MakePoint longitude latitude) 4326)) limit
           (filter (\<lambda>x. ST_Distance (zone_location x) (ST_SetSRID (ST_MakePoint longitude latitude) 4326) \<le> radius_meters)
              (hospital_zones db)) = Inr rows"
  using assms
  by (auto simp: get_nearby_hospital_zones_def Let_def ST_DWithin_def split: if_splits cong: conj_cong)

lemma get_nearby_hospital_zones_total:
  "hospital_zones_table \<notin> set (unavailable db) \<Longrightarrow> 0 \<le> limit \<Longrightarrow>
   \<exists>rows. get_nearby_hospital_zones ST_Distance db latitude longitude radius_meters limit = Inr rows"
  by (simp add: get_nearby_hospital_zones_def Let_def order_by_limit_def)

lemma get_nearby_hospital_zones_result:
  assumes "get_nearby_hospital_zones ST_Distance db latitude longitude radius_meters limit = Inr rows"
  shows "nearby_result ST_Distance zone_location (hospital_zones db) (ST_SetSRID (ST_MakePoint longitude latitude) 4326)
           radius_meters limit rows"
  using order_by_limit_Inr [OF get_nearby_hospital_zones_Inr(1) [OF assms]]
  unfolding nearby_result_def by auto

lemmas example_defs =
  example_database_def empty_database_def example_camera_def example_hazard_def
  ST_DWithin_def ST_MakePoint_def ST_SetSRID_def order_by_limit_def sql_ge_def
  sql_is_true_def hazard_active_def

lemma example_cameras_nearby:
  "get_nearby_speed_cameras example_distance example_database 13.0830 80.2705 500 0 False 2
     = Inr [example_camera 4 13.0831 80.2705 None None,
            example_camera 2 13.0835 80.2705 (Some 0.3) (Some 7)]"
  by (simp add: get_nearby_speed_cameras_def example_defs)

text \<open>
  Claim C3. For each of the six nearby queries (speed cameras, speed limits, hazards,
  hazardous roads, school zones, hospital zones): every returned row is a stored row
  at distance at most \<open>radius_meters\<close> from the query point, the returned sequence is
  in non-decreasing order of that distance, and it has at most \<open>limit\<close> entries. The
  query returns whenever its table can be read, \<open>limit\<close> is not negative and the
  threshold, where there is one, fits its type.
\<close>

theorem nearby_within_radius_sorted_limited:
  fixes ST_Distance :: distance
  shows
  "(get_nearby_speed_cameras ST_Distance db latitude longitude radius_meters min_confidence verified_only limit = Inr cameras \<longrightarrow>
      (\<forall>x \<in> set cameras. x \<in> set (speed_cameras db) \<and>
          ST_Distance (cam_location x) (ST_SetSRID (ST_MakePoint longitude latitude) 4326)
            \<le> radius_meters) \<and>
      sorted (map (\<lambda>x. ST_Distance (cam_location x)
                          (ST_SetSRID (ST_MakePoint longitude latitude) 4326)) cameras) \<and>
      int (length cameras) \<le> limit) \<and>
   (get_nearby_speed_limits ST_Distance db latitude longitude radius_meters min_confidence verified_only limit = Inr speed_limits \<longrightarrow>
      (\<forall>x \<in> set speed_limits. x \<in> set (road_speed_limits db) \<and>
          ST_Distance (lim_road_segment x) (ST_SetSRID (ST_MakePoint longitude latitude) 4326)
            \<le> radius_meters) \<and>
      sorted (map (\<lambda>x. ST_Distance (lim_road_segment x)
                          (ST_SetSRID (ST_MakePoint longitude latitude) 4326)) speed_limits) \<and>
      int (length speed_limits) \<le> limit) \<and>
   (get_nearby_hazards ST_Distance now db latitude longitude radius_meters min_confidence active_only limit = Inr hazards \<longrightarrow>
      (\<forall>x \<in> set hazards. x \<in> set (hazard_detections db) \<and>
          ST_Distance (haz_location x) (ST_SetSRID (ST_MakePoint longitude latitude) 4326)
            \<le> radius_meters) \<and>
      sorted (map (\<lambda>x. ST_Distance (haz_location x)
                          (ST_SetSRID (ST_MakePoint longitude latitude) 4326)) hazards) \<and>
      int (length hazards) \<le> limit) \<and>
   (get_nearby_hazardous_roads ST_Distance db latitude longitude radius_meters min_confidence limit = Inr hazardous_roads \<longrightarrow>
      (\<forall>x \<in> set hazardous_roads. x \<in> set (hazardous_road_segments db) \<and>
          ST_Distance (seg_road_segment x) (ST_SetSRID (ST_MakePoint longitude latitude) 4326)
            \<le> radius_meters) \<and>
      sorted (map (\<lambda>x. ST_Distance (seg_road_segment x)
                          (ST_SetSRID (ST_MakePoint longitude latitude) 4326)) hazardous_roads) \<and>
      int (length hazardous_roads) \<le> limit) \<and>
   (get_nearby_school_zones ST_Distance db latitude longitude radius_meters limit = Inr schools \<longrightarrow>
      (\<forall>x \<in> set schools. x \<in> set (school_zones db) \<and>
          ST_Distance (zone_location x) (ST_SetSRID (ST_MakePoint longitude latitude) 4326)
            \<le> radius_meters) \<and>
      sorted (map (\<lambda>x. ST_Distance (zone_location x)
                          (ST_SetSRID (ST_MakePoint longitude latitude) 4326)) schools) \<and>
      int (length schools) \<le> limit) \<and>
   (get_nearby_hospital_zones ST_Distance db latitude longitude radius_meters limit = Inr hospitals \<longrightarrow>
      (\<forall>x \<in> set hospitals. x \<in> set (hospital_zones db) \<and>
          ST_Distance (zone_location x) (ST_SetSRID (ST_MakePoint longitude latitude) 4326)
            \<le> radius_meters) \<and>
      sorted (map (\<lambda>x. ST_Distance (zone_location x)
                          (ST_SetSRID (ST_MakePoint longitude latitude) 4326)) hospitals) \<and>
      int (length hospitals) \<le> limit) \<and>
   (speed_cameras_table \<notin> set (unavailable db) \<and> 0 \<le> limit \<and>
      (0 < min_confidence \<longrightarrow> \<bar>round_2 min_confidence\<bar> < 10) \<longrightarrow>
      (\<exists>rows. get_nearby_speed_cameras ST_Distance db latitude longitude radius_meters min_confidence verified_only limit = Inr rows)) \<and>
   (road_speed_limits_table \<notin> set (unavailable db) \<and> 0 \<le> limit \<and>
      (0 < min_confidence \<longrightarrow> \<bar>round_2 min_confidence\<bar> < 10) \<longrightarrow>
      (\<exists>rows. get_nearby_speed_limits ST_Distance db latitude longitude radius_meters min_confidence verified_only limit = Inr rows)) \<and>
   (hazard_detections_table \<notin> set (unavailable db) \<and> 0 \<le> limit \<and>
      (0 < min_confidence \<longrightarrow> \<bar>round_2 min_confidence\<bar> < 10) \<longrightarrow>
      (\<exists>rows. get_nearby_hazards ST_Distance now db latitude longitude radius_meters min_confidence active_only limit = Inr rows)) \<and>
   (hazardous_road_segments_table \<notin> set (unavailable db) \<and> 0 \<le> limit \<and>
      (0 < min_confidence \<longrightarrow> \<bar>round_2 min_confidence\<bar> < 10) \<longrightarrow>
      (\<exists>rows. get_nearby_hazardous_roads ST_Distance db latitude longitude radius_meters min_confidence limit = Inr rows)) \<and>
   (school_zones_table \<notin> set (unavailable db) \<and> 0 \<le> limit \<longrightarrow>
      (\<exists>rows. get_nearby_school_zones ST_Distance db latitude longitude radius_meters limit = Inr rows)) \<and>
   (hospital_zones_table \<notin> set (unavailable db) \<and> 0 \<le> limit \<longrightarrow>
      (\<exists>rows. get_nearby_hospital_zones ST_Distance db latitude longitude radius_meters limit = Inr rows))"
proof -
  have r0: "(get_nearby_speed_cameras ST_Distance db latitude longitude radius_meters min_confidence verified_only limit = Inr cameras \<longrightarrow>
      (\<forall>x \<in> set cameras. x \<in> set (speed_cameras db) \<and>
          ST_Distance (cam_location x) (ST_SetSRID (ST_MakePoint longitude latitude) 4326)
            \<le> radius_meters) \<and>
      sorted (map (\<lambda>x. ST_Distance (cam_location x)
                          (ST_SetSRID (ST_MakePoint longitude latitude) 4326)) cameras) \<and>
      int (length cameras) \<le> limit)"
    using get_nearby_speed_cameras_result [of ST_Distance db latitude longitude radius_meters min_confidence verified_only limit cameras]
    unfolding nearby_result_def by blast
  have t0: "(speed_cameras_table \<notin> set (unavailable db) \<and> 0 \<le> limit \<and>
      (0 < min_confidence \<longrightarrow> \<bar>round_2 min_confidence\<bar> < 10) \<longrightarrow>
      (\<exists>rows. get_nearby_speed_cameras ST_Distance db latitude longitude radius_meters min_confidence verified_only limit = Inr rows))"
    using get_nearby_speed_cameras_total [of db limit min_confidence] by blast
  have r1: "(get_nearby_speed_limits ST_Distance db latitude longitude radius_meters min_confidence verified_only limit = Inr speed_limits \<longrightarrow>
      (\<forall>x \<in> set speed_limits. x \<in> set (road_speed_limits db) \<and>
          ST_Distance (lim_road_segment x) (ST_SetSRID (ST_MakePoint longitude latitude) 4326)
            \<le> radius_meters) \<and>
      sorted (map (\<lambda>x. ST_Distance (lim_road_segment x)
                          (ST_SetSRID (ST_MakePoint longitude latitude) 4326)) speed_limits) \<and>
      int (length speed_limits) \<le> limit)"
    using get_nearby_speed_limits_result [of ST_Distance db latitude longitude radius_meters min_confidence verified_only limit speed_limits]
    unfolding nearby_result_def by blast
  have t1: "(road_speed_limits_table \<notin> set (unavailable db) \<and> 0 \<le> limit \<and>
      (0 < min_confidence \<longrightarrow> \<bar>round_2 min_confidence\<bar> < 10) \<longrightarrow>
      (\<exists>rows. get_nearby_speed_limits ST_Distance db latitude longitude radius_meters min_confidence verified_only limit = Inr rows))"
    using get_nearby_speed_limits_total [of db limit min_confidence] by blast
  have r2: "(get_nearby_hazards ST_Distance now db latitude longitude radius_meters min_confidence active_only limit = Inr hazards \<longrightarrow>
      (\<forall>x \<in> set hazards. x \<in> set (hazard_detections db) \<and>
          ST_Distance (haz_location x) (ST_SetSRID (ST_MakePoint longitude latitude) 4326)
            \<le> radius_meters) \<and>
      sorted (map (\<lambda>x. ST_Distance (haz_location x)
                          (ST_SetSRID (ST_MakePoint longitude latitude) 4326)) hazards) \<and>
      int (length hazards) \<le> limit)"
    using get_nearby_hazards_result [of ST_Distance now db latitude longitude radius_meters min_confidence active_only limit hazards]
    unfolding nearby_result_def by blast
  have t2: "(hazard_detections_table \<notin> set (unavailable db) \<and> 0 \<le> limit \<and>
      (0 < min_confidence \<longrightarrow> \<bar>round_2 min_confidence\<bar> < 10) \<longrightarrow>
      (\<exists>rows. get_nearby_hazards ST_Distance now db latitude longitude radius_meters min_confidence active_only limit = Inr rows))"
    using get_nearby_hazards_total [of db limit min_confidence] by blast
  have r3: "(get_nearby_hazardous_roads ST_Distance db latitude longitude radius_meters min_confidence limit = Inr hazardous_roads \<longrightarrow>
      (\<forall>x \<in> set hazardous_roads. x \<in> set (hazardous_road_segments db) \<and>
          ST_Distance (seg_road_segment x) (ST_SetSRID (ST_MakePoint longitude latitude) 4326)
            \<le> radius_meters) \<and>
      sorted (map (\<lambda>x. ST_Distance (seg_road_segment x)
                          (ST_SetSRID (ST_MakePoint longitude latitude) 4326)) hazardous_roads) \<and>
      int (length hazardous_roads) \<le> limit)"
    using get_nearby_hazardous_roads_result [of ST_Distance db latitude longitude radius_meters min_confidence limit hazardous_roads]
    unfolding nearby_result_def by blast
  have t3: "(hazardous_road_segments_table \<notin> set (unavailable db) \<and> 0 \<le> limit \<and>
      (0 < min_confidence \<longrightarrow> \<bar>round_2 min_confidence\<bar> < 10) \<longrightarrow>
      (\<exists>rows. get_nearby_hazardous_roads ST_Distance db latitude longitude radius_meters min_confidence limit = Inr rows))"
    using get_nearby_hazardous_roads_total [of db limit min_confidence] by blast
  have r4: "(get_nearby_school_zones ST_Distance db latitude longitude radius_meters limit = Inr schools \<longrightarrow>
      (\<forall>x \<in> set schools. x \<in> set (school_zones db) \<and>
          ST_Distance (zone_location x) (ST_SetSRID (ST_MakePoint longitude latitude) 4326)
            \<le> radius_meters) \<and>
      sorted (map (\<lambda>x. ST_Distance (zone_location x)
                          (ST_SetSRID (ST_MakePoint longitude latitude) 4326)) schools) \<and>
      int (length schools) \<le> limit)"
    using get_nearby_school_zones_result [of ST_Distance db latitude longitude radius_meters limit schools]
    unfolding nearby_result_def by blast
  have t4: "(school_zones_table \<notin> set (unavailable db) \<and> 0 \<le> limit \<longrightarrow>
      (\<exists>rows. get_nearby_school_zones ST_Distance db latitude longitude radius_meters limit = Inr rows))"
    using get_nearby_school_zones_total [of db limit] by blast
  have r5: "(get_nearby_hospital_zones ST_Distance db latitude longitude radius_meters limit = Inr hospitals \<longrightarrow>
      (\<forall>x \<in> set hospitals. x \<in> set (hospital_zones db) \<and>
          ST_Distance (zone_location x) (ST_SetSRID (ST_MakePoint longitude latitude) 4326)
            \<le> radius_meters) \<and>
      sorted (map (\<lambda>x. ST_Distance (zone_location x)
                          (ST_SetSRID (ST_MakePoint longitude latitude) 4326)) hospitals) \<and>
      int (length hospitals) \<le> limit)"
    using get_nearby_hospital_zones_result [of ST_Distance db latitude longitude radius_meters limit hospitals]
    unfolding nearby_result_def by blast
  have t5: "(hospital_zones_table \<notin> set (unavailable db) \<and> 0 \<le> limit \<longrightarrow>
      (\<exists>rows. get_nearby_hospital_zones ST_Distance db latitude longitude radius_meters limit = Inr rows))"
    using get_nearby_hospital_zones_total [of db limit] by blast
  show ?thesis
    by (intro conjI) (rule r0 r1 r2 r3 r4 r5 t0 t1 t2 t3 t4 t5)+
qed

lemmas example_roads_defs =
  example_database_with_roads_def example_speed_limit_def example_road_def example_zone_def
  example_defs

lemma example_nearby_results:
  "get_nearby_speed_cameras example_distance example_database_with_roads 13.0830 80.2705 500 0 False 2
     = Inr [example_camera 4 13.0831 80.2705 None None,
            example_camera 2 13.0835 80.2705 (Some 0.3) (Some 7)]"
  "get_nearby_speed_limits example_distance example_database_with_roads 13.0830 80.2705 500 0 False 2
     = Inr [example_speed_limit 10 (Some 0.85)]"
  "get_nearby_hazards example_distance 1600 example_database_with_roads 13.0830 80.2705 500 0 True 2
     = Inr [example_hazard 6 13.0831 80.2705 (Some 0.6) (Some True) None,
            example_hazard 5 13.0832 80.2705 (Some 0.9) (Some True) (Some 2000)]"
  "get_nearby_hazardous_roads example_distance example_database_with_roads 13.0830 80.2705 500 0 2
     = Inr [example_road 11 (Some 0.5)]"
  "get_nearby_school_zones example_distance example_database_with_roads 13.0830 80.2705 500 2
     = Inr [example_zone 13 13.0831 80.2705, example_zone 12 13.0832 80.2705]"
  "get_nearby_hospital_zones example_distance example_database_with_roads 13.0830 80.2705 500 2
     = Inr [example_zone 14 13.0829 80.2705]"
  by (simp_all add: get_nearby_speed_cameras_def get_nearby_speed_limits_def get_nearby_hazards_def get_nearby_hazardous_roads_def get_nearby_school_zones_def get_nearby_hospital_zones_def example_roads_defs)

theorem nearby_within_radius_sorted_limited_witness:
  "get_nearby_speed_cameras example_distance example_database_with_roads 13.0830 80.2705 500 0 False 2
     = Inr [example_camera 4 13.0831 80.2705 None None,
            example_camera 2 13.0835 80.2705 (Some 0.3) (Some 7)] \<and>
   get_nearby_speed_limits example_distance example_database_with_roads 13.0830 80.2705 500 0 False 2
     = Inr [example_speed_limit 10 (Some 0.85)] \<and>
   get_nearby_hazards example_distance 1600 example_database_with_roads 13.0830 80.2705 500 0 True 2
     = Inr [example_hazard 6 13.0831 80.2705 (Some 0.6) (Some True) None,
            example_hazard 5 13.0832 80.2705 (Some 0.9) (Some True) (Some 2000)] \<and>
   get_nearby_hazardous_roads example_distance example_database_with_roads 13.0830 80.2705 500 0 2
     = Inr [example_road 11 (Some 0.5)] \<and>
   get_nearby_school_zones example_distance example_database_with_roads 13.0830 80.2705 500 2
     = Inr [example_zone 13 13.0831 80.2705, example_zone 12 13.0832 80.2705] \<and>
   get_nearby_hospital_zones example_distance example_database_with_roads 13.0830 80.2705 500 2
     = Inr [example_zone 14 13.0829 80.2705] \<and>
   list_all (\<lambda>x. example_distance (cam_location x) (ST_SetSRID (ST_MakePoint 80.2705 13.0830) 4326) \<le> 500)
     [example_camera 4 13.0831 80.2705 None None,
      example_camera 2 13.0835 80.2705 (Some 0.3) (Some 7)] \<and>
   list_all (\<lambda>x. example_distance (lim_road_segment x) (ST_SetSRID (ST_MakePoint 80.2705 13.0830) 4326) \<le> 500)
     [example_speed_limit 10 (Some 0.85)] \<and>
   list_all (\<lambda>x. example_distance (haz_location x) (ST_SetSRID (ST_MakePoint 80.2705 13.0830) 4326) \<le> 500)
     [example_hazard 6 13.0831 80.2705 (Some 0.6) (Some True) None,
      example_hazard 5 13.0832 80.2705 (Some 0.9) (Some True) (Some 2000)] \<and>
   list_all (\<lambda>x. example_distance (seg_road_segment x) (ST_SetSRID (ST_MakePoint 80.2705 13.0830) 4326) \<le> 500)
     [example_road 11 (Some 0.5)] \<and>
   list_all (\<lambda>x. example_distance (zone_location x) (ST_SetSRID (ST_MakePoint 80.2705 13.0830) 4326) \<le> 500)
     [example_zone 13 13.0831 80.2705, example_zone 12 13.0832 80.2705] \<and>
   list_all (\<lambda>x. example_distance (zone_location x) (ST_SetSRID (ST_MakePoint 80.2705 13.0830) 4326) \<le> 500)
     [example_zone 14 13.0829 80.2705] \<and>
   sorted (map (\<lambda>x. example_distance (zone_location x) (ST_SetSRID (ST_MakePoint 80.2705 13.0830) 4326))
             [example_zone 13 13.0831 80.2705, example_zone 12 13.0832 80.2705])"
proof -
  note t = nearby_within_radius_sorted_limited
          [where ST_Distance = example_distance and db = example_database_with_roads
             and latitude = "13.0830" and longitude = "80.2705" and radius_meters = 500
             and min_confidence = 0 and verified_only = False and limit = 2
             and now = 1600 and active_only = True
             and cameras = "[example_camera 4 13.0831 80.2705 None None,
                  example_camera 2 13.0835 80.2705 (Some 0.3) (Some 7)]"
             and speed_limits = "[example_speed_limit 10 (Some 0.85)]"
             and hazards = "[example_hazard 6 13.0831 80.2705 (Some 0.6) (Some True) None,
                  example_hazard 5 13.0832 80.2705 (Some 0.9) (Some True) (Some 2000)]"
             and hazardous_roads = "[example_road 11 (Some 0.5)]"
             and schools = "[example_zone 13 13.0831 80.2705, example_zone 12 13.0832 80.2705]"
             and hospitals = "[example_zone 14 13.0829 80.2705]"]
  from t example_nearby_results show ?thesis unfolding list_all_iff by blast
qed










text \<open>
  Claim C5. With \<open>active_only\<close> set, every returned hazard has \<open>is_active\<close> true and an
  expiry that is NULL or later than the time of the query; a hazard whose expiry is in
  the past is not returned, whatever its flag. Among the stored hazards that pass the
  other filters (the threshold rounded to two decimals), when \<open>limit\<close> does not cut the
  result, exactly those are returned
  whose flag is true and whose expiry is NULL or in the future: the row stays in the
  table and the comparison with \<open>now\<close> decides at each query.
\<close>

theorem expired_hazards_excluded:
  fixes ST_Distance :: distance
  assumes "get_nearby_hazards ST_Distance now db latitude longitude radius_meters
             min_confidence True limit = Inr hs"
  shows
  "(\<forall>h \<in> set hs. haz_is_active h = Some True \<and>
       (\<forall>t. haz_expires_at h = Some t \<longrightarrow> now < t)) \<and>
   (\<forall>h t. haz_expires_at h = Some t \<and> t < now \<longrightarrow> h \<notin> set hs) \<and>
   (\<forall>h \<in> set (hazard_detections db).
       ST_Distance (haz_location h) (ST_SetSRID (ST_MakePoint longitude latitude) 4326)
         \<le> radius_meters \<and>
       (0 < min_confidence \<longrightarrow> sql_ge (haz_confidence_score h) (round_2 min_confidence)) \<and>
       int (length (hazard_detections db)) \<le> limit \<longrightarrow>
       (h \<in> set hs \<longleftrightarrow>
          haz_is_active h = Some True \<and>
          (haz_expires_at h = None \<or> (\<exists>t. haz_expires_at h = Some t \<and> now < t))))"
proof -
  let ?P = "ST_SetSRID (ST_MakePoint longitude latitude) 4326"
  let ?rows = "filter (\<lambda>h. ST_Distance (haz_location h) ?P \<le> radius_meters
                      \<and> (min_confidence > 0 \<longrightarrow> sql_ge (haz_confidence_score h) (round_2 min_confidence))
                      \<and> (True \<longrightarrow> hazard_active now h))
              (hazard_detections db)"
  note q = get_nearby_hazards_Inr(1) [OF assms]
  note sub = order_by_limit_Inr(1) [OF q]
  have act: "hazard_active now h \<longleftrightarrow>
       haz_is_active h = Some True \<and>
       (haz_expires_at h = None \<or> (\<exists>t. haz_expires_at h = Some t \<and> now < t))" for h
    by (auto simp: hazard_active_def sql_is_true_def split: option.splits)
  have a: "\<forall>h \<in> set hs. haz_is_active h = Some True \<and>
       (\<forall>t. haz_expires_at h = Some t \<longrightarrow> now < t)"
  proof
    fix h assume "h \<in> set hs"
    with sub have "hazard_active now h" by auto
    then show "haz_is_active h = Some True \<and> (\<forall>t. haz_expires_at h = Some t \<longrightarrow> now < t)"
      unfolding act by auto
  qed
  have b: "\<forall>h t. haz_expires_at h = Some t \<and> t < now \<longrightarrow> h \<notin> set hs"
    using a by fastforce
  have c: "\<forall>h \<in> set (hazard_detections db).
       ST_Distance (haz_location h) ?P \<le> radius_meters \<and>
       (0 < min_confidence \<longrightarrow> sql_ge (haz_confidence_score h) (round_2 min_confidence)) \<and>
       int (length (hazard_detections db)) \<le> limit \<longrightarrow>
       (h \<in> set hs \<longleftrightarrow>
          haz_is_active h = Some True \<and>
          (haz_expires_at h = None \<or> (\<exists>t. haz_expires_at h = Some t \<and> now < t)))"
  proof (intro ballI impI)
    fix h
    assume mem: "h \<in> set (hazard_detections db)"
      and hyp: "ST_Distance (haz_location h) ?P \<le> radius_meters \<and>
         (0 < min_confidence \<longrightarrow> sql_ge (haz_confidence_score h) (round_2 min_confidence)) \<and>
         int (length (hazard_detections db)) \<le> limit"
    have "length ?rows \<le> length (hazard_detections db)" by (rule length_filter_le)
    with hyp have "int (length ?rows) \<le> limit" by linarith
    from order_by_limit_all [OF q this] have "set hs = set ?rows" .
    with mem hyp have "h \<in> set hs \<longleftrightarrow> hazard_active now h" by auto
    then show "h \<in> set hs \<longleftrightarrow>
          haz_is_active h = Some True \<and>
          (haz_expires_at h = None \<or> (\<exists>t. haz_expires_at h = Some t \<and> now < t))"
      unfolding act .
  qed
  from a b c show ?thesis by blast
qed

lemma example_hazards_active:
  "get_nearby_hazards example_distance 1600 example_database 13.0830 80.2705 500 0 True 50
     = Inr [example_hazard 6 13.0831 80.2705 (Some 0.6) (Some True) None,
            example_hazard 5 13.0832 80.2705 (Some 0.9) (Some True) (Some 2000)]"
  by (simp add: get_nearby_hazards_def example_defs)

theorem expired_hazards_excluded_witness:
  "get_nearby_hazards example_distance 1600 example_database 13.0830 80.2705 500 0 True 50
     = Inr [example_hazard 6 13.0831 80.2705 (Some 0.6) (Some True) None,
            example_hazard 5 13.0832 80.2705 (Some 0.9) (Some True) (Some 2000)] \<and>
   haz_is_active (example_hazard 7 13.0830 80.2705 (Some 0.7) (Some True) (Some 1500)) = Some True \<and>
   haz_expires_at (example_hazard 7 13.0830 80.2705 (Some 0.7) (Some True) (Some 1500)) = Some 1500 \<and>
   (1500::int) < 1600 \<and>
   example_hazard 7 13.0830 80.2705 (Some 0.7) (Some True) (Some 1500)
     \<in> set (hazard_detections example_database) \<and>
   example_hazard 7 13.0830 80.2705 (Some 0.7) (Some True) (Some 1500)
     \<notin> set [example_hazard 6 13.0831 80.2705 (Some 0.6) (Some True) None,
             example_hazard 5 13.0832 80.2705 (Some 0.9) (Some True) (Some 2000)]"
proof -
  note t = expired_hazards_excluded [OF example_hazards_active]
  have f: "haz_is_active (example_hazard 7 13.0830 80.2705 (Some 0.7) (Some True) (Some 1500)) = Some True"
    "haz_expires_at (example_hazard 7 13.0830 80.2705 (Some 0.7) (Some True) (Some 1500)) = Some 1500"
    "(1500::int) < 1600"
    "example_hazard 7 13.0830 80.2705 (Some 0.7) (Some True) (Some 1500)
       \<in> set (hazard_detections example_database)"
    by (simp_all add: example_hazard_def example_database_def empty_database_def)
  from t f example_hazards_active show ?thesis by blast
qed

section \<open>Properties of the camera endpoints\<close>

lemma filter_primary_key:
  assumes "distinct (map cam_id cams)" and "c \<in> set cams"
  shows "filter (\<lambda>x. cam_id x = cam_id c) cams = [c]"
  using assms
proof (induction cams)
  case Nil
  then show ?case by simp
next
  case (Cons a cams)
  show ?case
  proof (cases "a = c")
    case True
    with Cons.prems have "cam_id c \<notin> cam_id ` set cams" by simp
    then have "\<forall>x \<in> set cams. cam_id x \<noteq> cam_id c" by (metis imageI)
    then have "filter (\<lambda>x. cam_id x = cam_id c) cams = []" by (simp add: filter_empty_conv)
    with True show ?thesis by simp
  next
    case False
    with Cons.prems have mem: "c \<in> set cams" and d: "distinct (map cam_id cams)" by auto
    from Cons.prems mem have "cam_id a \<noteq> cam_id c" by force
    with Cons.IH [OF d mem] show ?thesis by simp
  qed
qed

lemma delete_camera_failure_keeps_database:
  "fst (delete_camera UUID db camera_id current_user) = Inl e \<Longrightarrow>
   snd (delete_camera UUID db camera_id current_user) = db"
  by (auto simp: delete_camera_def split: option.splits list.splits if_splits)

lemma delete_camera_found:
  assumes "speed_cameras_table \<notin> set (unavailable db)"
    and "distinct (map cam_id (speed_cameras db))"
    and "UUID camera_id = Some (cam_id c)"
    and "c \<in> set (speed_cameras db)"
  shows "delete_camera UUID db camera_id current_user =
     (if cam_reported_by c \<noteq> Some current_user then (Inl (HTTPException 403), db)
      else (Inr (), db\<lparr>speed_cameras :=
                         filter (\<lambda>x. cam_id x \<noteq> cam_id c) (speed_cameras db)\<rparr>))"
  using assms(1,3) filter_primary_key [OF assms(2,4)]
  by (simp add: delete_camera_def)

lemma delete_camera_success:
  assumes "delete_camera UUID db camera_id current_user = (Inr (), db')"
  shows "\<exists>c \<in> set (speed_cameras db). UUID camera_id = Some (cam_id c) \<and>
           cam_reported_by c = Some current_user"
proof -
  from assms obtain u c where u: "UUID camera_id = Some u"
    and f: "filter (\<lambda>x. cam_id x = u) (speed_cameras db) = [c]"
    and r: "cam_reported_by c = Some current_user"
    by (auto simp: delete_camera_def split: option.splits list.splits if_splits)
  from f have "c \<in> set (filter (\<lambda>x. cam_id x = u) (speed_cameras db))" by simp
  then have "c \<in> set (speed_cameras db)" "cam_id c = u" by auto
  with u r show ?thesis by auto
qed

text \<open>
  Claim C6. When the table can be read and the path parameter parses to a key: a
  delete by a requester other than the camera's reporter answers 403 and leaves the
  database as it was, so the camera is returned by later queries as before; a delete of
  a key that no camera has answers 404; a delete by the reporter removes the camera.
  The delete succeeds only when the camera's \<open>reported_by\<close> is the requester, and
  every failing delete leaves the database unchanged.
\<close>

theorem delete_camera_only_by_reporter:
  assumes "speed_cameras_table \<notin> set (unavailable db)"
    and "distinct (map cam_id (speed_cameras db))"
    and "UUID camera_id = Some cam_uuid"
  shows
  "(\<forall>c \<in> set (speed_cameras db).
       cam_id c = cam_uuid \<and> cam_reported_by c \<noteq> Some current_user \<longrightarrow>
       delete_camera UUID db camera_id current_user = (Inl (HTTPException 403), db)) \<and>
   (cam_uuid \<notin> set (map cam_id (speed_cameras db)) \<longrightarrow>
       delete_camera UUID db camera_id current_user = (Inl (HTTPException 404), db)) \<and>
   (\<forall>c \<in> set (speed_cameras db).
       cam_id c = cam_uuid \<and> cam_reported_by c = Some current_user \<longrightarrow>
       delete_camera UUID db camera_id current_user =
         (Inr (), db\<lparr>speed_cameras :=
                       filter (\<lambda>x. cam_id x \<noteq> cam_uuid) (speed_cameras db)\<rparr>) \<and>
       c \<notin> set (speed_cameras (snd (delete_camera UUID db camera_id current_user)))) \<and>
   (\<forall>db'. delete_camera UUID db camera_id current_user = (Inr (), db') \<longrightarrow>
       (\<exists>c \<in> set (speed_cameras db).
           cam_id c = cam_uuid \<and> cam_reported_by c = Some current_user)) \<and>
   (\<forall>e. fst (delete_camera UUID db camera_id current_user) = Inl e \<longrightarrow>
       snd (delete_camera UUID db camera_id current_user) = db)"
proof (intro conjI)
  show "\<forall>c \<in> set (speed_cameras db).
       cam_id c = cam_uuid \<and> cam_reported_by c \<noteq> Some current_user \<longrightarrow>
       delete_camera UUID db camera_id current_user = (Inl (HTTPException 403), db)"
    using delete_camera_found [OF assms(1,2)] assms(3) by auto
  show "cam_uuid \<notin> set (map cam_id (speed_cameras db)) \<longrightarrow>
       delete_camera UUID db camera_id current_user = (Inl (HTTPException 404), db)"
  proof
    assume "cam_uuid \<notin> set (map cam_id (speed_cameras db))"
    then have "filter (\<lambda>c. cam_id c = cam_uuid) (speed_cameras db) = []"
      by (auto simp: filter_empty_conv)
    with assms(1,3) show "delete_camera UUID db camera_id current_user
        = (Inl (HTTPException 404), db)"
      by (simp add: delete_camera_def)
  qed
  show "\<forall>c \<in> set (speed_cameras db).
       cam_id c = cam_uuid \<and> cam_reported_by c = Some current_user \<longrightarrow>
       delete_camera UUID db camera_id current_user =
         (Inr (), db\<lparr>speed_cameras :=
                       filter (\<lambda>x. cam_id x \<noteq> cam_uuid) (speed_cameras db)\<rparr>) \<and>
       c \<notin> set (speed_cameras (snd (delete_camera UUID db camera_id current_user)))"
    using delete_camera_found [OF assms(1,2)] assms(3) by auto
  show "\<forall>db'. delete_camera UUID db camera_id current_user = (Inr (), db') \<longrightarrow>
       (\<exists>c \<in> set (speed_cameras db).
           cam_id c = cam_uuid \<and> cam_reported_by c = Some current_user)"
    using delete_camera_success [of UUID db camera_id current_user] assms(3) by auto
  show "\<forall>e. fst (delete_camera UUID db camera_id current_user) = Inl e \<longrightarrow>
       snd (delete_camera UUID db camera_id current_user) = db"
    using delete_camera_failure_keeps_database by blast
qed

lemma numeric_3_2_imported: "numeric_3_2 0.80 = Inr 0.80" "numeric_3_2 (4 / 5) = Inr (4 / 5)"
  by (simp_all add: numeric_3_2_def round_2_def Let_def)

lemma numeric_3_2_reported: "numeric_3_2 0.50 = Inr 0.50" "numeric_3_2 (1 / 2) = Inr (1 / 2)"
  by (simp_all add: numeric_3_2_def round_2_def Let_def)

lemma flush_speed_camera_Inr:
  assumes "flush_speed_camera db camera = Inr (row, db')"
  shows "speed_cameras db' = speed_cameras db @ [row]"
    and "unavailable db' = unavailable db"
    and "speed_cameras_table \<notin> set (unavailable db)"
    and "cam_id row = next_uuid db"
    and "next_uuid db' = Suc (next_uuid db)"
    and "cam_location row = cam_location camera"
    and "cam_reported_by row = cam_reported_by camera"
    and "cam_verified row = column_default False (cam_verified camera)"
    and "cam_verification_count row = column_default 0 (cam_verification_count camera)"
    and "numeric_3_2 (case cam_confidence_score camera of None \<Rightarrow> 0.50 | Some s \<Rightarrow> s)
           = Inr (the (cam_confidence_score row))"
    and "cam_confidence_score row \<noteq> None"
    and "cam_speed_limit_kmh row = cam_speed_limit_kmh camera"
    and "cam_camera_type row = cam_camera_type camera"
    and "cam_direction_degrees row = cam_direction_degrees camera"
  using assms
  by (auto simp: flush_speed_camera_def Let_def split: if_splits sum.splits)

lemma create_camera_eq:
  "create_camera db request current_user =
     (if speed_cameras_table \<notin> set (unavailable db) \<and> fits_columns request
      then (Inr (reported_camera request current_user (next_uuid db)),
            db\<lparr>speed_cameras := speed_cameras db @
                   [reported_camera request current_user (next_uuid db)],
                next_uuid := Suc (next_uuid db)\<rparr>)
      else (Inl (HTTPException 500), db))"
  by (auto simp: create_camera_def create_speed_camera_def flush_speed_camera_def Let_def
        numeric_3_2_reported column_default_def speed_cameras_confidence_check_def
        reported_camera_def fits_columns_def split: option.splits)

lemma create_camera_Inr:
  assumes "create_camera db request current_user = (Inr c, db')"
  shows "speed_cameras db' = speed_cameras db @ [c]"
    and "c = reported_camera request current_user (next_uuid db)"
    and "next_uuid db' = Suc (next_uuid db)"
  using assms by (auto simp: create_camera_eq split: if_splits)

section \<open>Properties of the camera import\<close>

lemma flush_speed_camera_imported:
  assumes "flush_speed_camera db camera = Inr (row, db')" and "imported_row camera"
  shows "imported_row row"
proof -
  note f = flush_speed_camera_Inr [OF assms(1)]
  from assms(2) have c: "cam_confidence_score camera = Some 0.80" by (simp add: imported_row_def)
  from f(10) c numeric_3_2_imported(1) have "the (cam_confidence_score row) = 0.80" by simp
  with f(11) have "cam_confidence_score row = Some 0.80" by (cases "cam_confidence_score row") auto
  with f(7,8,9) assms(2) show ?thesis
    by (simp add: imported_row_def column_default_def)
qed

lemma flush_all_imported:
  assumes "flush_all db pending = Inr db'" and "\<forall>c \<in> set pending. imported_row c"
  shows "\<exists>rows. speed_cameras db' = speed_cameras db @ rows \<and> length rows = length pending \<and>
           (\<forall>c \<in> set rows. imported_row c)"
    and "unavailable db' = unavailable db"
  using assms
proof (induction pending arbitrary: db)
  case Nil
  { case 1 then show ?case by simp }
  { case 2 then show ?case by simp }
next
  case (Cons camera pending)
  {
    case 1
    then obtain row db1 where f: "flush_speed_camera db camera = Inr (row, db1)"
      and r: "flush_all db1 pending = Inr db'"
      by (auto split: sum.splits)
    from 1 have p: "\<forall>c \<in> set pending. imported_row c" and c: "imported_row camera" by auto
    from Cons.IH(1) [OF r p] obtain rows where
      rows: "speed_cameras db' = speed_cameras db1 @ rows" "length rows = length pending"
        "\<forall>c \<in> set rows. imported_row c" by blast
    from flush_speed_camera_Inr(1) [OF f] rows(1)
    have "speed_cameras db' = speed_cameras db @ (row # rows)" by simp
    moreover have "length (row # rows) = length (camera # pending)" using rows(2) by simp
    moreover have "\<forall>c \<in> set (row # rows). imported_row c"
      using rows(3) flush_speed_camera_imported [OF f c] by simp
    ultimately show ?case by blast
  }
  {
    case 2
    then obtain row db1 where f: "flush_speed_camera db camera = Inr (row, db1)"
      and r: "flush_all db1 pending = Inr db'"
      by (auto split: sum.splits)
    from 2 have p: "\<forall>c \<in> set pending. imported_row c" by auto
    from Cons.IH(2) [OF r p] flush_speed_camera_Inr(2) [OF f] show ?case by simp
  }
qed

lemma commit_invariant:
  assumes "commit st = Inr st'" and "import_invariant stored st"
  shows "import_invariant stored st'" and "st_pending st' = []"
    and "st_imported_count st' = st_imported_count st"
proof -
  from assms(1) obtain db' where f: "flush_all (st_db st) (st_pending st) = Inr db'"
    and st': "st' = st\<lparr>st_db := db', st_pending := []\<rparr>"
    by (auto simp: commit_def split: sum.splits)
  from assms(2) obtain rows where rows: "speed_cameras (st_db st) = stored @ rows"
    "\<forall>c \<in> set rows. imported_row c" "\<forall>c \<in> set (st_pending st). imported_row c"
    "length rows + length (st_pending st) = st_imported_count st"
    unfolding import_invariant_def by blast
  from flush_all_imported(1) [OF f rows(3)] obtain new where
    new: "speed_cameras db' = speed_cameras (st_db st) @ new"
      "length new = length (st_pending st)" "\<forall>c \<in> set new. imported_row c" by blast
  have "speed_cameras (st_db st') = stored @ (rows @ new)" using new(1) rows(1) st' by simp
  moreover have "\<forall>c \<in> set (rows @ new). imported_row c" using rows(2) new(3) by auto
  moreover have "length (rows @ new) + length (st_pending st') = st_imported_count st'"
    using rows(4) new(2) st' by simp
  ultimately show "import_invariant stored st'"
    unfolding import_invariant_def using st' by (intro exI [of _ "rows @ new"]) simp
  show "st_pending st' = []" using st' by simp
  show "st_imported_count st' = st_imported_count st" using st' by simp
qed

lemma import_camera_cases:
  assumes "import_camera ST_Distance st cd = Inr st'"
  obtains (skipped) "st' = skip st"
  | (added) latitude longitude where
      "cd_latitude cd = Some latitude" "cd_longitude cd = Some longitude"
      "\<not> list_ex (\<lambda>c. ST_DWithin ST_Distance (cam_location c)
                        (ST_SetSRID (ST_MakePoint longitude latitude) 4326) 10)
           (speed_cameras (st_db st))"
      "Suc (st_imported_count st) mod 100 \<noteq> 0"
      "st' = st\<lparr>st_pending := st_pending st @ [constructed_camera cd latitude longitude],
                 st_imported_count := Suc (st_imported_count st)\<rparr>"
  | (committed) latitude longitude where
      "cd_latitude cd = Some latitude" "cd_longitude cd = Some longitude"
      "\<not> list_ex (\<lambda>c. ST_DWithin ST_Distance (cam_location c)
                        (ST_SetSRID (ST_MakePoint longitude latitude) 4326) 10)
           (speed_cameras (st_db st))"
      "commit (st\<lparr>st_pending := st_pending st @ [constructed_camera cd latitude longitude],
                   st_imported_count := Suc (st_imported_count st)\<rparr>) = Inr st'"
  using assms
  unfolding import_camera_def Let_def constructed_camera_def
  by (simp split: option.splits if_splits prod.splits)

lemma import_camera_invariant:
  assumes "import_camera ST_Distance st cd = Inr st'" and "import_invariant stored st"
  shows "import_invariant stored st'"
  using assms(1)
proof (cases rule: import_camera_cases)
  case skipped
  with assms(2) show ?thesis by (simp add: import_invariant_def skip_def)
next
  case (added latitude longitude)
  with assms(2) show ?thesis
    by (auto simp: import_invariant_def imported_row_def constructed_camera_def)
next
  case (committed latitude longitude)
  have "import_invariant stored
          (st\<lparr>st_pending := st_pending st @ [constructed_camera cd latitude longitude],
               st_imported_count := Suc (st_imported_count st)\<rparr>)"
    using assms(2) by (auto simp: import_invariant_def imported_row_def constructed_camera_def)
  from commit_invariant(1) [OF committed(4) this] show ?thesis .
qed

lemma import_cameras_loop_invariant:
  assumes "import_cameras_loop ST_Distance st cameras_data = Inr st'"
    and "import_invariant stored st"
  shows "import_invariant stored st'"
  using assms
proof (induction cameras_data arbitrary: st)
  case Nil
  then show ?case by simp
next
  case (Cons cd cameras_data)
  from Cons.prems(1) obtain st1 where s: "import_camera ST_Distance st cd = Inr st1"
    and r: "import_cameras_loop ST_Distance st1 cameras_data = Inr st'"
    by (auto split: sum.splits)
  from Cons.IH [OF r import_camera_invariant [OF s Cons.prems(2)]] show ?case .
qed

lemma import_speed_cameras_rows:
  assumes "import_speed_cameras ST_Distance db cameras_data = Inr (db', n)"
  shows "\<exists>rows. speed_cameras db' = speed_cameras db @ rows \<and> length rows = n \<and>
           (\<forall>c \<in> set rows. imported_row c)"
proof -
  let ?st0 = "\<lparr>st_db = db, st_pending = [], st_imported_count = 0, st_skipped_count = 0\<rparr>"
  from assms obtain st st' where l: "import_cameras_loop ST_Distance ?st0 cameras_data = Inr st"
    and c: "commit st = Inr st'" and d: "db' = st_db st'" "n = st_imported_count st'"
    by (auto simp: import_speed_cameras_def split: sum.splits)
  have "import_invariant (speed_cameras db) ?st0" by (simp add: import_invariant_def)
  from import_cameras_loop_invariant [OF l this] have "import_invariant (speed_cameras db) st" .
  from commit_invariant(1,2) [OF c this] d show ?thesis
    by (auto simp: import_invariant_def)
qed

lemma import_one_skipped:
  assumes "cd_latitude cd = Some latitude" and "cd_longitude cd = Some longitude"
    and "c \<in> set (speed_cameras db)"
    and "ST_Distance (cam_location c) (ST_SetSRID (ST_MakePoint longitude latitude) 4326) \<le> 10"
  shows "import_speed_cameras ST_Distance db [cd] = Inr (db, 0)"
proof -
  from assms(3,4) have "list_ex (\<lambda>c. ST_DWithin ST_Distance (cam_location c)
      (ST_SetSRID (ST_MakePoint longitude latitude) 4326) 10) (speed_cameras db)"
    by (auto simp: list_ex_iff ST_DWithin_def)
  with assms(1,2) show ?thesis
    by (simp add: import_speed_cameras_def import_camera_def Let_def skip_def commit_def)
qed

lemma camera_type_fits:
  "length (case map_of camera_type_map t of Some t \<Rightarrow> t | None \<Rightarrow> ''fixed'') \<le> 50"
  by (simp add: camera_type_map_def)

lemma direction_fits:
  "(case (case d of None \<Rightarrow> None
               | Some d \<Rightarrow> if \<not> (0 \<le> d \<and> d \<le> 360) then None else Some d) of
      None \<Rightarrow> False | Some d \<Rightarrow> \<not> int4_ok d) = False"
  by (simp add: int4_ok_def split: option.splits)

lemma flush_constructed_camera:
  assumes "speed_cameras_table \<notin> set (unavailable db)"
    and "int4_ok (case cd_speed_limit cd of Some n \<Rightarrow> n | None \<Rightarrow> 60)"
  shows "flush_speed_camera db (constructed_camera cd latitude longitude) =
     Inr ((constructed_camera cd latitude longitude)\<lparr>cam_id := next_uuid db\<rparr>,
          db\<lparr>speed_cameras := speed_cameras db @
                 [(constructed_camera cd latitude longitude)\<lparr>cam_id := next_uuid db\<rparr>],
              next_uuid := Suc (next_uuid db)\<rparr>)"
  using assms camera_type_fits [of "cd_camera_type cd"] direction_fits [of "cd_direction cd"]
  by (simp add: flush_speed_camera_def numeric_3_2_imported column_default_def
        speed_cameras_confidence_check_def int4_ok_def Let_def constructed_camera_def)

lemma import_one_added:
  assumes "speed_cameras_table \<notin> set (unavailable db)"
    and "cd_latitude cd = Some latitude" and "cd_longitude cd = Some longitude"
    and "-90 \<le> latitude" "latitude \<le> 90" "-180 \<le> longitude" "longitude \<le> 180"
    and "int4_ok (case cd_speed_limit cd of Some n \<Rightarrow> n | None \<Rightarrow> 60)"
    and "\<forall>c \<in> set (speed_cameras db).
           \<not> ST_Distance (cam_location c) (ST_SetSRID (ST_MakePoint longitude latitude) 4326) \<le> 10"
  shows "import_speed_cameras ST_Distance db [cd] =
     Inr (db\<lparr>speed_cameras := speed_cameras db @
                 [(constructed_camera cd latitude longitude)\<lparr>cam_id := next_uuid db\<rparr>],
              next_uuid := Suc (next_uuid db)\<rparr>, 1)"
proof -
  from assms(9) have n: "\<not> list_ex (\<lambda>c. ST_DWithin ST_Distance (cam_location c)
      (ST_SetSRID (ST_MakePoint longitude latitude) 4326) 10) (speed_cameras db)"
    by (auto simp: list_ex_iff ST_DWithin_def)
  let ?st0 = "\<lparr>st_db = db, st_pending = [], st_imported_count = 0, st_skipped_count = 0\<rparr>"
  have step: "import_camera ST_Distance ?st0 cd =
      Inr (?st0\<lparr>st_pending := [constructed_camera cd latitude longitude],
                st_imported_count := 1\<rparr>)"
    using assms(1-7) n by (simp add: import_camera_def Let_def constructed_camera_def)
  show ?thesis
    by (simp add: import_speed_cameras_def step commit_def
          flush_constructed_camera [OF assms(1,8)])
qed

lemma flush_all_locations:
  assumes "flush_all db pending = Inr db'"
  shows "\<exists>rows. speed_cameras db' = speed_cameras db @ rows \<and>
           map cam_location rows = map cam_location pending"
  using assms
proof (induction pending arbitrary: db)
  case Nil
  then show ?case by simp
next
  case (Cons camera pending)
  then obtain row db1 where f: "flush_speed_camera db camera = Inr (row, db1)"
    and r: "flush_all db1 pending = Inr db'"
    by (auto split: sum.splits)
  from Cons.IH [OF r] obtain rows where
    rows: "speed_cameras db' = speed_cameras db1 @ rows"
      "map cam_location rows = map cam_location pending" by blast
  from flush_speed_camera_Inr(1) [OF f] rows(1)
  have "speed_cameras db' = speed_cameras db @ (row # rows)" by simp
  moreover have "map cam_location (row # rows) = map cam_location (camera # pending)"
    using rows(2) flush_speed_camera_Inr(6) [OF f] by simp
  ultimately show ?case by blast
qed

lemma import_progress_refl: "import_progress ST_Distance st st"
  unfolding import_progress_def
  by (intro exI [of _ "[]"]) simp

lemma import_progress_skip: "import_progress ST_Distance st (skip st)"
  unfolding import_progress_def skip_def
  by (intro exI [of _ "[]"]) simp

lemma import_progress_trans:
  assumes "import_progress ST_Distance st st1" and "import_progress ST_Distance st1 st2"
  shows "import_progress ST_Distance st st2"
proof -
  from assms(1) obtain rows1 new1 where
    a: "speed_cameras (st_db st1) = speed_cameras (st_db st) @ rows1"
      "map cam_location (rows1 @ st_pending st1) = map cam_location (st_pending st) @ new1"
      "\<forall>p \<in> set new1. \<forall>c \<in> set (speed_cameras (st_db st)). \<not> ST_Distance (cam_location c) p \<le> 10"
    unfolding import_progress_def by blast
  from assms(2) obtain rows2 new2 where
    b: "speed_cameras (st_db st2) = speed_cameras (st_db st1) @ rows2"
      "map cam_location (rows2 @ st_pending st2) = map cam_location (st_pending st1) @ new2"
      "\<forall>p \<in> set new2. \<forall>c \<in> set (speed_cameras (st_db st1)). \<not> ST_Distance (cam_location c) p \<le> 10"
    unfolding import_progress_def by blast
  have 1: "speed_cameras (st_db st2) = speed_cameras (st_db st) @ (rows1 @ rows2)"
    using a(1) b(1) by simp
  have "map cam_location ((rows1 @ rows2) @ st_pending st2)
      = map cam_location rows1 @ map cam_location (rows2 @ st_pending st2)" by simp
  also have "\<dots> = map cam_location rows1 @ map cam_location (st_pending st1) @ new2"
    by (simp only: b(2))
  also have "\<dots> = map cam_location (rows1 @ st_pending st1) @ new2" by simp
  also have "\<dots> = map cam_location (st_pending st) @ (new1 @ new2)" by (simp only: a(2)) simp
  finally have 2: "map cam_location ((rows1 @ rows2) @ st_pending st2)
      = map cam_location (st_pending st) @ (new1 @ new2)" .
  have 3: "\<forall>p \<in> set (new1 @ new2). \<forall>c \<in> set (speed_cameras (st_db st)).
      \<not> ST_Distance (cam_location c) p \<le> 10"
    using a(1,3) b(3) by auto
  from 1 2 3 show ?thesis unfolding import_progress_def by blast
qed

lemma commit_progress:
  assumes "commit st = Inr st'"
  shows "import_progress ST_Distance st st'"
proof -
  from assms obtain db' where f: "flush_all (st_db st) (st_pending st) = Inr db'"
    and st': "st' = st\<lparr>st_db := db', st_pending := []\<rparr>"
    by (auto simp: commit_def split: sum.splits)
  from flush_all_locations [OF f] obtain rows where
    rows: "speed_cameras db' = speed_cameras (st_db st) @ rows"
      "map cam_location rows = map cam_location (st_pending st)" by blast
  have "speed_cameras (st_db st') = speed_cameras (st_db st) @ rows" using rows(1) st' by simp
  moreover have "map cam_location (rows @ st_pending st') = map cam_location (st_pending st) @ []"
    using rows(2) st' by simp
  ultimately show ?thesis unfolding import_progress_def by fastforce
qed

lemma import_progress_added:
  assumes "\<not> list_ex (\<lambda>c. ST_DWithin ST_Distance (cam_location c)
                        (ST_SetSRID (ST_MakePoint longitude latitude) 4326) 10)
           (speed_cameras (st_db st))"
  shows "import_progress ST_Distance st
           (st\<lparr>st_pending := st_pending st @ [constructed_camera cd latitude longitude],
               st_imported_count := Suc (st_imported_count st)\<rparr>)"
proof -
  let ?p = "ST_SetSRID (ST_MakePoint longitude latitude) 4326"
  let ?st' = "st\<lparr>st_pending := st_pending st @ [constructed_camera cd latitude longitude],
               st_imported_count := Suc (st_imported_count st)\<rparr>"
  have 1: "speed_cameras (st_db ?st') = speed_cameras (st_db st) @ []" by simp
  have 2: "map cam_location ([] @ st_pending ?st') = map cam_location (st_pending st) @ [?p]"
    by (simp add: constructed_camera_def)
  have 3: "\<forall>p \<in> set [?p]. \<forall>c \<in> set (speed_cameras (st_db st)).
      \<not> ST_Distance (cam_location c) p \<le> 10"
    using assms by (simp add: list_ex_iff ST_DWithin_def)
  from 1 2 3 show ?thesis unfolding import_progress_def by blast
qed

lemma import_camera_progress:
  assumes "import_camera ST_Distance st cd = Inr st'"
  shows "import_progress ST_Distance st st'"
  using assms
proof (cases rule: import_camera_cases)
  case skipped
  then show ?thesis by (simp add: import_progress_skip)
next
  case (added latitude longitude)
  from import_progress_added [OF added(3)] added(5) show ?thesis by simp
next
  case (committed latitude longitude)
  from import_progress_trans [OF import_progress_added [OF committed(3)]
         commit_progress [OF committed(4)]]
  show ?thesis .
qed

lemma import_cameras_loop_progress:
  assumes "import_cameras_loop ST_Distance st cameras_data = Inr st'"
  shows "import_progress ST_Distance st st'"
  using assms
proof (induction cameras_data arbitrary: st)
  case Nil
  then show ?case by (simp add: import_progress_refl)
next
  case (Cons cd cameras_data)
  from Cons.prems obtain st1 where s: "import_camera ST_Distance st cd = Inr st1"
    and r: "import_cameras_loop ST_Distance st1 cameras_data = Inr st'"
    by (auto split: sum.splits)
  from import_progress_trans [OF import_camera_progress [OF s] Cons.IH [OF r]] show ?case .
qed

lemma import_speed_cameras_far:
  assumes "import_speed_cameras ST_Distance db cameras_data = Inr (db', n)"
  shows "\<exists>rows. speed_cameras db' = speed_cameras db @ rows \<and>
           (\<forall>r \<in> set rows. \<forall>c \<in> set (speed_cameras db).
              \<not> ST_Distance (cam_location c) (cam_location r) \<le> 10)"
proof -
  let ?st0 = "\<lparr>st_db = db, st_pending = [], st_imported_count = 0, st_skipped_count = 0\<rparr>"
  from assms obtain st st' where l: "import_cameras_loop ST_Distance ?st0 cameras_data = Inr st"
    and c: "commit st = Inr st'" and d: "db' = st_db st'"
    by (auto simp: import_speed_cameras_def split: sum.splits)
  from c have p: "st_pending st' = []" by (auto simp: commit_def split: sum.splits)
  from import_progress_trans [OF import_cameras_loop_progress [OF l] commit_progress [OF c]]
  obtain rows new where
    a: "speed_cameras (st_db st') = speed_cameras db @ rows"
      "map cam_location (rows @ st_pending st') = map cam_location [] @ new"
      "\<forall>p \<in> set new. \<forall>c \<in> set (speed_cameras db). \<not> ST_Distance (cam_location c) p \<le> 10"
    unfolding import_progress_def by auto
  from a(2) p have "new = map cam_location rows" by simp
  with a(3) have "\<forall>r \<in> set rows. \<forall>c \<in> set (speed_cameras db).
              \<not> ST_Distance (cam_location c) (cam_location r) \<le> 10" by simp
  with a(1) d show ?thesis by blast
qed

lemma import_camera_near:
  assumes "cd_latitude cd = Some latitude" and "cd_longitude cd = Some longitude"
    and "c \<in> set (speed_cameras (st_db st))"
    and "ST_Distance (cam_location c) (ST_SetSRID (ST_MakePoint longitude latitude) 4326) \<le> 10"
  shows "import_camera ST_Distance st cd = Inr (skip st)"
proof -
  from assms(3,4) have "list_ex (\<lambda>c. ST_DWithin ST_Distance (cam_location c)
      (ST_SetSRID (ST_MakePoint longitude latitude) 4326) 10) (speed_cameras (st_db st))"
    by (auto simp: list_ex_iff ST_DWithin_def)
  with assms(1,2) show ?thesis
    by (simp add: import_camera_def Let_def)
qed

section \<open>Deleting and creating cameras\<close>

lemma example_database_keys:
  "speed_cameras_table \<notin> set (unavailable example_database)"
  "distinct (map cam_id (speed_cameras example_database))"
  by (simp_all add: example_database_def empty_database_def example_camera_def)

lemma example_UUID_values:
  "example_UUID ''00000000-0000-4000-8000-000000000001'' = Some 1"
  "example_UUID ''00000000-0000-4000-8000-000000000002'' = Some 2"
  "example_UUID ''00000000-0000-4000-8000-000000000009'' = Some 9"
  by (simp_all add: example_UUID_def)

lemma example_database_cameras:
  "example_camera 1 13.09 80.2705 (Some 0.8) None \<in> set (speed_cameras example_database)"
  "example_camera 2 13.0835 80.2705 (Some 0.3) (Some 7) \<in> set (speed_cameras example_database)"
  "9 \<notin> set (map cam_id (speed_cameras example_database))"
  "cam_id (example_camera 1 13.09 80.2705 (Some 0.8) None) = 1"
  "cam_reported_by (example_camera 1 13.09 80.2705 (Some 0.8) None) = None"
  "cam_id (example_camera 2 13.0835 80.2705 (Some 0.3) (Some 7)) = 2"
  "cam_reported_by (example_camera 2 13.0835 80.2705 (Some 0.3) (Some 7)) = Some 7"
  by (simp_all add: example_database_def empty_database_def example_camera_def)

theorem delete_camera_only_by_reporter_witness:
  "speed_cameras_table \<notin> set (unavailable example_database) \<and>
   distinct (map cam_id (speed_cameras example_database)) \<and>
   example_UUID ''00000000-0000-4000-8000-000000000002'' = Some 2 \<and>
   example_UUID ''00000000-0000-4000-8000-000000000009'' = Some 9 \<and>
   cam_reported_by (example_camera 2 13.0835 80.2705 (Some 0.3) (Some 7)) = Some 7 \<and>
   delete_camera example_UUID example_database ''00000000-0000-4000-8000-000000000002'' 8
     = (Inl (HTTPException 403), example_database) \<and>
   delete_camera example_UUID example_database ''00000000-0000-4000-8000-000000000009'' 8
     = (Inl (HTTPException 404), example_database) \<and>
   delete_camera example_UUID example_database ''00000000-0000-4000-8000-000000000002'' 7
     = (Inr (), example_database
              \<lparr>speed_cameras := filter (\<lambda>x. cam_id x \<noteq> 2) (speed_cameras example_database)\<rparr>)"
proof -
  note k = example_database_keys
  note a = delete_camera_only_by_reporter
             [where UUID = example_UUID and camera_id = "''00000000-0000-4000-8000-000000000002''"
                and current_user = 8, OF k example_UUID_values(2)]
  note b = delete_camera_only_by_reporter
             [where UUID = example_UUID and camera_id = "''00000000-0000-4000-8000-000000000009''"
                and current_user = 8, OF k example_UUID_values(3)]
  note c = delete_camera_only_by_reporter
             [where UUID = example_UUID and camera_id = "''00000000-0000-4000-8000-000000000002''"
                and current_user = 7, OF k example_UUID_values(2)]
  have ne: "cam_reported_by (example_camera 2 13.0835 80.2705 (Some 0.3) (Some 7)) \<noteq> Some 8"
    by (simp add: example_camera_def)
  from a b c k example_UUID_values example_database_cameras ne show ?thesis by blast
qed

text \<open>
  Claim C10. A stored camera whose \<open>reported_by\<close> is NULL cannot be deleted through
  \<open>delete_camera\<close>: when the table can be read and the path parameter names the
  camera, the answer is 403 for every requester and the camera stays in the table. The
  rows that \<open>import_speed_cameras\<close> adds to the table are such cameras.
\<close>

theorem unreported_camera_cannot_be_deleted:
  assumes "speed_cameras_table \<notin> set (unavailable db)"
    and "distinct (map cam_id (speed_cameras db))"
    and "c \<in> set (speed_cameras db)"
    and "cam_reported_by c = None"
    and "UUID camera_id = Some (cam_id c)"
  shows
  "delete_camera UUID db camera_id current_user = (Inl (HTTPException 403), db) \<and>
   c \<in> set (speed_cameras (snd (delete_camera UUID db camera_id current_user))) \<and>
   (\<forall>ST_Distance stored cameras_data n.
       import_speed_cameras ST_Distance stored cameras_data = Inr (db, n) \<longrightarrow>
       (\<forall>r \<in> set (drop (length (speed_cameras stored)) (speed_cameras db)).
           cam_reported_by r = None))"
proof (intro conjI allI impI)
  show d: "delete_camera UUID db camera_id current_user = (Inl (HTTPException 403), db)"
    using delete_camera_found [where UUID = UUID and camera_id = camera_id, OF assms(1,2,5,3)]
      assms(4) by simp
  show "c \<in> set (speed_cameras (snd (delete_camera UUID db camera_id current_user)))"
    using assms(3) by (simp add: d)
next
  fix ST_Distance :: distance and stored cameras_data n
  assume "import_speed_cameras ST_Distance stored cameras_data = Inr (db, n)"
  from import_speed_cameras_rows [OF this] obtain rows where
    "speed_cameras db = speed_cameras stored @ rows" "\<forall>c \<in> set rows. imported_row c"
    by blast
  then show "\<forall>r \<in> set (drop (length (speed_cameras stored)) (speed_cameras db)).
           cam_reported_by r = None"
    by (simp add: imported_row_def)
qed

theorem unreported_camera_cannot_be_deleted_witness:
  "speed_cameras_table \<notin> set (unavailable example_database) \<and>
   distinct (map cam_id (speed_cameras example_database)) \<and>
   example_camera 1 13.09 80.2705 (Some 0.8) None \<in> set (speed_cameras example_database) \<and>
   cam_reported_by (example_camera 1 13.09 80.2705 (Some 0.8) None) = None \<and>
   example_UUID ''00000000-0000-4000-8000-000000000001''
     = Some (cam_id (example_camera 1 13.09 80.2705 (Some 0.8) None)) \<and>
   delete_camera example_UUID example_database ''00000000-0000-4000-8000-000000000001'' 7
     = (Inl (HTTPException 403), example_database) \<and>
   delete_camera example_UUID example_database ''00000000-0000-4000-8000-000000000001'' 8
     = (Inl (HTTPException 403), example_database)"
proof -
  have u: "example_UUID ''00000000-0000-4000-8000-000000000001''
     = Some (cam_id (example_camera 1 13.09 80.2705 (Some 0.8) None))"
    by (simp add: example_UUID_def example_camera_def)
  note k = example_database_keys
  note a = unreported_camera_cannot_be_deleted
             [where UUID = example_UUID and camera_id = "''00000000-0000-4000-8000-000000000001''"
                and current_user = 7,
              OF k example_database_cameras(1) example_database_cameras(5) u]
  note b = unreported_camera_cannot_be_deleted
             [where UUID = example_UUID and camera_id = "''00000000-0000-4000-8000-000000000001''"
                and current_user = 8,
              OF k example_database_cameras(1) example_database_cameras(5) u]
  from a b k u example_database_cameras show ?thesis by blast
qed

text \<open>
  Claim C2. \<open>POST /api/cameras\<close> checks no range. The request below has a speed limit
  of 500, a direction of 720 and the camera type \<open>banana\<close>; the bounds that the example
  router declares for the same fields reject it, and \<open>create_camera\<close> stores it as it
  is.
\<close>

theorem create_camera_accepts_out_of_range:
  "\<not> CreateSpeedCameraRequest_valid out_of_range_request 0.50 \<and>
   create_camera empty_database out_of_range_request 7 =
     (Inr (reported_camera out_of_range_request 7 0),
      empty_database\<lparr>speed_cameras := [reported_camera out_of_range_request 7 0],
                      next_uuid := 1\<rparr>) \<and>
   cam_speed_limit_kmh (reported_camera out_of_range_request 7 0) = 500 \<and>
   cam_direction_degrees (reported_camera out_of_range_request 7 0) = Some 720 \<and>
   cam_camera_type (reported_camera out_of_range_request 7 0) = ''banana''"
proof -
  have f: "fits_columns out_of_range_request"
    by (simp add: fits_columns_def out_of_range_request_def int4_ok_def)
  have a: "speed_cameras_table \<notin> set (unavailable empty_database)"
    "next_uuid empty_database = 0" "speed_cameras empty_database = []"
    by (simp_all add: empty_database_def)
  have v: "\<not> CreateSpeedCameraRequest_valid out_of_range_request 0.50"
    by (simp add: CreateSpeedCameraRequest_valid_def out_of_range_request_def)
  have c: "create_camera empty_database out_of_range_request 7 =
     (Inr (reported_camera out_of_range_request 7 0),
      empty_database\<lparr>speed_cameras := [reported_camera out_of_range_request 7 0],
                      next_uuid := 1\<rparr>)"
    by (simp add: create_camera_eq f a)
  show ?thesis using v c by (simp add: reported_camera_def out_of_range_request_def)
qed

section \<open>Two submissions at one place\<close>

lemma example_import_first:
  "import_speed_cameras example_distance empty_database [example_cam_data 13.0827 80.2707]
     = Inr (example_imported_database, 1)"
proof -
  have "import_speed_cameras example_distance empty_database [example_cam_data 13.0827 80.2707] =
     Inr (empty_database\<lparr>speed_cameras := speed_cameras empty_database @
                 [(constructed_camera (example_cam_data 13.0827 80.2707) 13.0827 80.2707)
                    \<lparr>cam_id := next_uuid empty_database\<rparr>],
              next_uuid := Suc (next_uuid empty_database)\<rparr>, 1)"
    by (rule import_one_added)
       (simp_all add: empty_database_def example_cam_data_def int4_ok_def)
  then show ?thesis by (simp add: example_imported_database_def empty_database_def)
qed

lemma example_import_second:
  "import_speed_cameras example_distance example_imported_database
     [example_cam_data 13.08271 80.2707] = Inr (example_imported_database, 0)"
  by (rule import_one_skipped
        [where latitude = "13.08271" and longitude = "80.2707"
           and c = "(constructed_camera (example_cam_data 13.0827 80.2707) 13.0827 80.2707)
                      \<lparr>cam_id := 0\<rparr>"])
     (simp_all add: example_imported_database_def empty_database_def example_cam_data_def
        constructed_camera_def ST_SetSRID_def ST_MakePoint_def)

lemma example_imported_row:
  "map cam_verification_count (speed_cameras example_imported_database) = [Some 1]"
  "map cam_confidence_score (speed_cameras example_imported_database) = [Some 0.80]"
  "map cam_verified (speed_cameras example_imported_database) = [Some True]"
  by (simp_all add: example_imported_database_def empty_database_def constructed_camera_def)

lemma example_reports:
  "create_camera empty_database example_request 7 =
     (Inr (reported_camera example_request 7 0),
      empty_database\<lparr>speed_cameras := [reported_camera example_request 7 0], next_uuid := 1\<rparr>)"
  "create_camera
     (empty_database\<lparr>speed_cameras := [reported_camera example_request 7 0], next_uuid := 1\<rparr>)
     example_request 8 =
     (Inr (reported_camera example_request 8 1),
      empty_database\<lparr>speed_cameras := [reported_camera example_request 7 0,
                                         reported_camera example_request 8 1],
                      next_uuid := 2\<rparr>)"
proof -
  have f: "fits_columns example_request"
    by (simp add: fits_columns_def example_request_def int4_ok_def)
  show "create_camera empty_database example_request 7 =
     (Inr (reported_camera example_request 7 0),
      empty_database\<lparr>speed_cameras := [reported_camera example_request 7 0], next_uuid := 1\<rparr>)"
    by (simp add: create_camera_eq f empty_database_def)
  show "create_camera
     (empty_database\<lparr>speed_cameras := [reported_camera example_request 7 0], next_uuid := 1\<rparr>)
     example_request 8 =
     (Inr (reported_camera example_request 8 1),
      empty_database\<lparr>speed_cameras := [reported_camera example_request 7 0,
                                         reported_camera example_request 8 1],
                      next_uuid := 2\<rparr>)"
    by (simp add: create_camera_eq f empty_database_def)
qed

theorem nearby_submissions_not_merged:
  "example_distance (ST_SetSRID (ST_MakePoint 80.2707 13.0827) 4326)
     (ST_SetSRID (ST_MakePoint 80.2707 13.08271) 4326) \<le> 10 \<and>
   import_speed_cameras example_distance empty_database [example_cam_data 13.0827 80.2707]
     = Inr (example_imported_database, 1) \<and>
   import_speed_cameras example_distance example_imported_database
     [example_cam_data 13.08271 80.2707] = Inr (example_imported_database, 0) \<and>
   map cam_verification_count (speed_cameras example_imported_database) = [Some 1] \<and>
   map cam_verification_count (speed_cameras example_imported_database) \<noteq> [Some 2] \<and>
   create_camera empty_database example_request 7 =
     (Inr (reported_camera example_request 7 0),
      empty_database\<lparr>speed_cameras := [reported_camera example_request 7 0], next_uuid := 1\<rparr>) \<and>
   create_camera
     (empty_database\<lparr>speed_cameras := [reported_camera example_request 7 0], next_uuid := 1\<rparr>)
     example_request 8 =
     (Inr (reported_camera example_request 8 1),
      empty_database\<lparr>speed_cameras := [reported_camera example_request 7 0,
                                         reported_camera example_request 8 1],
                      next_uuid := 2\<rparr>) \<and>
   cam_location (reported_camera example_request 7 0)
     = cam_location (reported_camera example_request 8 1) \<and>
   map cam_verification_count
     [reported_camera example_request 7 0, reported_camera example_request 8 1]
     = [Some 0, Some 0]"
proof -
  have d: "example_distance (ST_SetSRID (ST_MakePoint 80.2707 13.0827) 4326)
     (ST_SetSRID (ST_MakePoint 80.2707 13.08271) 4326) \<le> 10"
    by (simp add: ST_SetSRID_def ST_MakePoint_def)
  have r: "cam_location (reported_camera example_request 7 0)
     = cam_location (reported_camera example_request 8 1)"
    "map cam_verification_count
       [reported_camera example_request 7 0, reported_camera example_request 8 1]
     = [Some 0, Some 0]"
    by (simp_all add: reported_camera_def)
  have n: "map cam_verification_count (speed_cameras example_imported_database) \<noteq> [Some 2]"
    by (simp add: example_imported_row)
  from d r n example_import_first example_import_second example_imported_row(1) example_reports
  show ?thesis by blast
qed

text \<open>
  Claim C1, as the code has it. Two submissions within 10 metres of each other are
  never merged, and no verification count is incremented.

  Through the bulk import: the loop body, in whatever state it runs, skips an entry
  with coordinates when the table holds a camera within 10 metres of its point; the
  state is the same but for the skip counter, so nothing is created and no stored
  camera changes. From any state on, the loop keeps the rows of the table and neither
  writes nor adds a camera within 10 metres of a camera that the table held at that
  state. A whole run keeps the rows stored at its start and adds rows with
  \<open>verification_count\<close> 1 and confidence 0.80, none of them within 10 metres of a
  camera stored at the start. And when no stored camera is within 10 metres of the
  first submission and its entry is valid, the import of the first stores one camera
  with \<open>verification_count\<close> 1 and confidence 0.80, and an import of the second
  after that skips it and leaves the database as it is.

  Through \<open>create_camera\<close> there is no proximity check: two requests that both
  succeed store two cameras, each with \<open>verification_count\<close> 0 and confidence 0.50,
  wherever they are.
\<close>

theorem import_skips_submission_near_stored_camera:
  fixes ST_Distance :: distance
  shows
  "(\<forall>st cd latitude longitude c.
       cd_latitude cd = Some latitude \<and> cd_longitude cd = Some longitude \<and>
       c \<in> set (speed_cameras (st_db st)) \<and>
       ST_Distance (cam_location c) (ST_SetSRID (ST_MakePoint longitude latitude) 4326) \<le> 10 \<longrightarrow>
       import_camera ST_Distance st cd
         = Inr (st\<lparr>st_skipped_count := Suc (st_skipped_count st)\<rparr>)) \<and>
   (\<forall>st cameras_data st'.
       import_cameras_loop ST_Distance st cameras_data = Inr st' \<longrightarrow>
       (\<exists>rows new.
          speed_cameras (st_db st') = speed_cameras (st_db st) @ rows \<and>
          map cam_location (rows @ st_pending st') = map cam_location (st_pending st) @ new \<and>
          (\<forall>p \<in> set new. \<forall>c \<in> set (speed_cameras (st_db st)).
             \<not> ST_Distance (cam_location c) p \<le> 10))) \<and>
   (\<forall>db cameras_data db' n.
       import_speed_cameras ST_Distance db cameras_data = Inr (db', n) \<longrightarrow>
       (\<exists>rows. speed_cameras db' = speed_cameras db @ rows \<and> length rows = n \<and>
          (\<forall>r \<in> set rows.
             cam_verification_count r = Some 1 \<and> cam_confidence_score r = Some 0.80 \<and>
             (\<forall>c \<in> set (speed_cameras db).
                \<not> ST_Distance (cam_location c) (cam_location r) \<le> 10)))) \<and>
   (\<forall>db first second lat1 lon1 lat2 lon2.
       speed_cameras_table \<notin> set (unavailable db) \<and>
       cd_latitude first = Some lat1 \<and> cd_longitude first = Some lon1 \<and>
       -90 \<le> lat1 \<and> lat1 \<le> 90 \<and> -180 \<le> lon1 \<and> lon1 \<le> 180 \<and>
       int4_ok (case cd_speed_limit first of Some n \<Rightarrow> n | None \<Rightarrow> 60) \<and>
       (\<forall>c \<in> set (speed_cameras db).
          \<not> ST_Distance (cam_location c) (ST_SetSRID (ST_MakePoint lon1 lat1) 4326) \<le> 10) \<and>
       cd_latitude second = Some lat2 \<and> cd_longitude second = Some lon2 \<and>
       ST_Distance (ST_SetSRID (ST_MakePoint lon1 lat1) 4326)
         (ST_SetSRID (ST_MakePoint lon2 lat2) 4326) \<le> 10 \<longrightarrow>
       (\<exists>camera db1.
          import_speed_cameras ST_Distance db [first] = Inr (db1, 1) \<and>
          speed_cameras db1 = speed_cameras db @ [camera] \<and>
          cam_location camera = ST_SetSRID (ST_MakePoint lon1 lat1) 4326 \<and>
          cam_verification_count camera = Some 1 \<and>
          cam_confidence_score camera = Some 0.80 \<and>
          cam_verified camera = Some True \<and>
          import_speed_cameras ST_Distance db1 [second] = Inr (db1, 0))) \<and>
   (\<forall>db request1 request2 user1 user2 camera1 camera2 db1 db2.
       create_camera db request1 user1 = (Inr camera1, db1) \<and>
       create_camera db1 request2 user2 = (Inr camera2, db2) \<longrightarrow>
       speed_cameras db2 = speed_cameras db @ [camera1, camera2] \<and>
       cam_id camera1 \<noteq> cam_id camera2 \<and>
       cam_verification_count camera1 = Some 0 \<and>
       cam_verification_count camera2 = Some 0 \<and>
       cam_confidence_score camera1 = Some 0.50 \<and>
       cam_confidence_score camera2 = Some 0.50)"
proof (intro conjI allI impI)
  fix st :: import_state and cd :: cam_data and latitude longitude :: real and c :: SpeedCamera
  assume h: "cd_latitude cd = Some latitude \<and> cd_longitude cd = Some longitude \<and>
       c \<in> set (speed_cameras (st_db st)) \<and>
       ST_Distance (cam_location c) (ST_SetSRID (ST_MakePoint longitude latitude) 4326) \<le> 10"
  then have "import_camera ST_Distance st cd = Inr (skip st)"
    by (intro import_camera_near [where c = c and latitude = latitude
          and longitude = longitude]) simp_all
  then show "import_camera ST_Distance st cd
         = Inr (st\<lparr>st_skipped_count := Suc (st_skipped_count st)\<rparr>)"
    by (simp add: skip_def)
next
  fix st st' :: import_state and cameras_data :: "cam_data list"
  assume "import_cameras_loop ST_Distance st cameras_data = Inr st'"
  from import_cameras_loop_progress [OF this]
  show "\<exists>rows new.
          speed_cameras (st_db st') = speed_cameras (st_db st) @ rows \<and>
          map cam_location (rows @ st_pending st') = map cam_location (st_pending st) @ new \<and>
          (\<forall>p \<in> set new. \<forall>c \<in> set (speed_cameras (st_db st)).
             \<not> ST_Distance (cam_location c) p \<le> 10)"
    unfolding import_progress_def .
next
  fix db db' :: database and cameras_data :: "cam_data list" and n :: nat
  assume r: "import_speed_cameras ST_Distance db cameras_data = Inr (db', n)"
  from import_speed_cameras_rows [OF r] obtain rows where
    a: "speed_cameras db' = speed_cameras db @ rows" "length rows = n"
      "\<forall>c \<in> set rows. imported_row c" by blast
  from import_speed_cameras_far [OF r] obtain rows' where
    b: "speed_cameras db' = speed_cameras db @ rows'"
      "\<forall>r \<in> set rows'. \<forall>c \<in> set (speed_cameras db).
              \<not> ST_Distance (cam_location c) (cam_location r) \<le> 10" by blast
  from a(1) b(1) have "rows' = rows" by simp
  with a b(2) show "\<exists>rows. speed_cameras db' = speed_cameras db @ rows \<and> length rows = n \<and>
          (\<forall>r \<in> set rows.
             cam_verification_count r = Some 1 \<and> cam_confidence_score r = Some 0.80 \<and>
             (\<forall>c \<in> set (speed_cameras db).
                \<not> ST_Distance (cam_location c) (cam_location r) \<le> 10))"
    unfolding imported_row_def by blast
next
  fix db :: database and first second :: cam_data and lat1 lon1 lat2 lon2 :: real
  assume h: "speed_cameras_table \<notin> set (unavailable db) \<and>
       cd_latitude first = Some lat1 \<and> cd_longitude first = Some lon1 \<and>
       -90 \<le> lat1 \<and> lat1 \<le> 90 \<and> -180 \<le> lon1 \<and> lon1 \<le> 180 \<and>
       int4_ok (case cd_speed_limit first of Some n \<Rightarrow> n | None \<Rightarrow> 60) \<and>
       (\<forall>c \<in> set (speed_cameras db).
          \<not> ST_Distance (cam_location c) (ST_SetSRID (ST_MakePoint lon1 lat1) 4326) \<le> 10) \<and>
       cd_latitude second = Some lat2 \<and> cd_longitude second = Some lon2 \<and>
       ST_Distance (ST_SetSRID (ST_MakePoint lon1 lat1) 4326)
         (ST_SetSRID (ST_MakePoint lon2 lat2) 4326) \<le> 10"
  let ?camera = "(constructed_camera first lat1 lon1)\<lparr>cam_id := next_uuid db\<rparr>"
  let ?db1 = "db\<lparr>speed_cameras := speed_cameras db @ [?camera],
                 next_uuid := Suc (next_uuid db)\<rparr>"
  have a: "import_speed_cameras ST_Distance db [first] = Inr (?db1, 1)"
    using h by (intro import_one_added [where ST_Distance = ST_Distance]) simp_all
  have loc: "cam_location ?camera = ST_SetSRID (ST_MakePoint lon1 lat1) 4326"
    by (simp add: constructed_camera_def)
  have mem: "?camera \<in> set (speed_cameras ?db1)" by simp
  have near: "ST_Distance (cam_location ?camera) (ST_SetSRID (ST_MakePoint lon2 lat2) 4326) \<le> 10"
    using h by (simp only: loc)
  have l2: "cd_latitude second = Some lat2" "cd_longitude second = Some lon2" using h by simp_all
  have b: "import_speed_cameras ST_Distance ?db1 [second] = Inr (?db1, 0)"
    by (rule import_one_skipped [where ST_Distance = ST_Distance, OF l2 mem near])
  have f: "cam_verification_count ?camera = Some 1" "cam_confidence_score ?camera = Some 0.80"
    "cam_verified ?camera = Some True"
    by (simp_all add: constructed_camera_def)
  have s: "speed_cameras ?db1 = speed_cameras db @ [?camera]" by simp
  from a s loc f b show "\<exists>camera db1.
       import_speed_cameras ST_Distance db [first] = Inr (db1, 1) \<and>
       speed_cameras db1 = speed_cameras db @ [camera] \<and>
       cam_location camera = ST_SetSRID (ST_MakePoint lon1 lat1) 4326 \<and>
       cam_verification_count camera = Some 1 \<and>
       cam_confidence_score camera = Some 0.80 \<and>
       cam_verified camera = Some True \<and>
       import_speed_cameras ST_Distance db1 [second] = Inr (db1, 0)"
    by blast
next
  fix db request1 request2 user1 user2 camera1 camera2 db1 db2
  assume h: "create_camera db request1 user1 = (Inr camera1, db1) \<and>
       create_camera db1 request2 user2 = (Inr camera2, db2)"
  note one = create_camera_Inr [OF conjunct1 [OF h]]
  note two = create_camera_Inr [OF conjunct2 [OF h]]
  show "speed_cameras db2 = speed_cameras db @ [camera1, camera2]"
    using one(1) two(1) by simp
  show "cam_id camera1 \<noteq> cam_id camera2"
    using one(2,3) two(2) by (simp add: reported_camera_def)
  show "cam_verification_count camera1 = Some 0" using one(2) by (simp add: reported_camera_def)
  show "cam_verification_count camera2 = Some 0" using two(2) by (simp add: reported_camera_def)
  show "cam_confidence_score camera1 = Some 0.50" using one(2) by (simp add: reported_camera_def)
  show "cam_confidence_score camera2 = Some 0.50" using two(2) by (simp add: reported_camera_def)
qed

lemma example_first_entry:
  "speed_cameras_table \<notin> set (unavailable empty_database)"
  "cd_latitude (example_cam_data 13.0827 80.2707) = Some 13.0827"
  "cd_longitude (example_cam_data 13.0827 80.2707) = Some 80.2707"
  "-90 \<le> (13.0827::real)" "(13.0827::real) \<le> 90" "-180 \<le> (80.2707::real)"
  "(80.2707::real) \<le> 180"
  "int4_ok (case cd_speed_limit (example_cam_data 13.0827 80.2707) of
              Some n \<Rightarrow> n | None \<Rightarrow> 60)"
  "\<forall>c \<in> set (speed_cameras empty_database).
     \<not> example_distance (cam_location c) (ST_SetSRID (ST_MakePoint 80.2707 13.0827) 4326) \<le> 10"
  "cd_latitude (example_cam_data 13.08271 80.2707) = Some 13.08271"
  "cd_longitude (example_cam_data 13.08271 80.2707) = Some 80.2707"
  "example_distance (ST_SetSRID (ST_MakePoint 80.2707 13.0827) 4326)
     (ST_SetSRID (ST_MakePoint 80.2707 13.08271) 4326) \<le> 10"
  by (simp_all add: empty_database_def example_cam_data_def int4_ok_def
        ST_SetSRID_def ST_MakePoint_def)

lemma example_stored_camera:
  "(constructed_camera (example_cam_data 13.0827 80.2707) 13.0827 80.2707)\<lparr>cam_id := 0\<rparr>
     \<in> set (speed_cameras (st_db example_import_state))"
  "example_distance
     (cam_location ((constructed_camera (example_cam_data 13.0827 80.2707) 13.0827 80.2707)
                      \<lparr>cam_id := 0\<rparr>))
     (ST_SetSRID (ST_MakePoint 80.2707 13.08271) 4326) \<le> 10"
  "speed_cameras example_imported_database =
     [(constructed_camera (example_cam_data 13.0827 80.2707) 13.0827 80.2707)\<lparr>cam_id := 0\<rparr>]"
  "st_db example_import_state = example_imported_database"
  by (simp_all add: example_import_state_def example_imported_database_def empty_database_def
        constructed_camera_def ST_SetSRID_def ST_MakePoint_def)

lemma example_import_step:
  "import_camera example_distance example_import_state (example_cam_data 13.08271 80.2707)
     = Inr (skip example_import_state)"
  by (rule import_camera_near [where ST_Distance = example_distance,
        OF example_first_entry(10,11) example_stored_camera(1,2)])

lemma example_import_loop:
  "import_cameras_loop example_distance example_import_state [example_cam_data 13.08271 80.2707]
     = Inr (example_import_state
              \<lparr>st_skipped_count := Suc (st_skipped_count example_import_state)\<rparr>)"
  by (simp only: import_cameras_loop.simps example_import_step sum.case skip_def)

lemma example_import_later:
  "import_speed_cameras example_distance example_imported_database
     [example_cam_data 13.09 80.28, example_cam_data 13.08271 80.2707]
     = Inr (example_later_database, 1)"
proof -
  let ?st0 = "\<lparr>st_db = example_imported_database, st_pending = [], st_imported_count = 0,
               st_skipped_count = 0\<rparr>"
  have u: "speed_cameras_table \<notin> set (unavailable example_imported_database)"
    by (simp add: example_imported_database_def empty_database_def)
  have far: "\<not> list_ex (\<lambda>c. ST_DWithin example_distance (cam_location c)
      (ST_SetSRID (ST_MakePoint 80.28 13.09) 4326) 10) (speed_cameras example_imported_database)"
    by (simp add: example_stored_camera(3) ST_DWithin_def constructed_camera_def
          ST_SetSRID_def ST_MakePoint_def)
  have 1: "import_camera example_distance ?st0 (example_cam_data 13.09 80.28) =
      Inr example_import_state"
    using u far
    by (simp add: import_camera_def Let_def example_import_state_def constructed_camera_def
          example_cam_data_def)
  have 2: "import_cameras_loop example_distance ?st0
      [example_cam_data 13.09 80.28, example_cam_data 13.08271 80.2707]
      = Inr (skip example_import_state)"
    by (simp only: import_cameras_loop.simps 1 example_import_step sum.case)
  have i: "int4_ok (case cd_speed_limit (example_cam_data 13.09 80.28) of
              Some n \<Rightarrow> n | None \<Rightarrow> 60)"
    by (simp add: example_cam_data_def int4_ok_def)
  have n: "next_uuid example_imported_database = 1"
    by (simp add: example_imported_database_def)
  have sd: "st_db (skip example_import_state) = example_imported_database"
    "st_pending (skip example_import_state)
       = [constructed_camera (example_cam_data 13.09 80.28) 13.09 80.28]"
    by (simp_all add: skip_def example_import_state_def)
  have s: "Suc 1 = 2" by simp
  have f: "flush_all example_imported_database
      [constructed_camera (example_cam_data 13.09 80.28) 13.09 80.28] = Inr example_later_database"
    by (simp only: flush_all.simps flush_constructed_camera [OF u i] sum.case prod.case n s
          example_later_database_def)
  have 3: "commit (skip example_import_state) =
      Inr ((skip example_import_state)\<lparr>st_db := example_later_database, st_pending := []\<rparr>)"
    by (simp only: commit_def sd f sum.case)
  show ?thesis
    by (simp only: import_speed_cameras_def 2 3 sum.case)
       (simp add: skip_def example_import_state_def)
qed

lemma example_later_rows:
  "speed_cameras example_later_database = speed_cameras example_imported_database @
     [(constructed_camera (example_cam_data 13.09 80.28) 13.09 80.28)\<lparr>cam_id := 1\<rparr>]"
  by (simp add: example_later_database_def)

theorem import_skips_submission_near_stored_camera_witness:
  "cd_latitude (example_cam_data 13.08271 80.2707) = Some 13.08271 \<and>
   cd_longitude (example_cam_data 13.08271 80.2707) = Some 80.2707 \<and>
   (constructed_camera (example_cam_data 13.0827 80.2707) 13.0827 80.2707)\<lparr>cam_id := 0\<rparr>
     \<in> set (speed_cameras (st_db example_import_state)) \<and>
   example_distance
     (cam_location ((constructed_camera (example_cam_data 13.0827 80.2707) 13.0827 80.2707)
                      \<lparr>cam_id := 0\<rparr>))
     (ST_SetSRID (ST_MakePoint 80.2707 13.08271) 4326) \<le> 10 \<and>
   import_camera example_distance example_import_state (example_cam_data 13.08271 80.2707)
     = Inr (example_import_state
              \<lparr>st_skipped_count := Suc (st_skipped_count example_import_state)\<rparr>) \<and>
   import_cameras_loop example_distance example_import_state [example_cam_data 13.08271 80.2707]
     = Inr (example_import_state
              \<lparr>st_skipped_count := Suc (st_skipped_count example_import_state)\<rparr>) \<and>
   (\<exists>rows new.
      speed_cameras (st_db (example_import_state
              \<lparr>st_skipped_count := Suc (st_skipped_count example_import_state)\<rparr>))
        = speed_cameras (st_db example_import_state) @ rows \<and>
      map cam_location (rows @ st_pending (example_import_state
              \<lparr>st_skipped_count := Suc (st_skipped_count example_import_state)\<rparr>))
        = map cam_location (st_pending example_import_state) @ new \<and>
      list_all (\<lambda>p. list_all (\<lambda>c. \<not> example_distance (cam_location c) p \<le> 10)
                       (speed_cameras (st_db example_import_state))) new) \<and>
   import_speed_cameras example_distance example_imported_database
     [example_cam_data 13.09 80.28, example_cam_data 13.08271 80.2707]
     = Inr (example_later_database, 1) \<and>
   (\<exists>rows. speed_cameras example_later_database
             = speed_cameras example_imported_database @ rows \<and>
      length rows = 1 \<and>
      list_all (\<lambda>r. cam_verification_count r = Some 1 \<and> cam_confidence_score r = Some 0.80 \<and>
                  list_all (\<lambda>c. \<not> example_distance (cam_location c) (cam_location r) \<le> 10)
                    (speed_cameras example_imported_database)) rows) \<and>
   speed_cameras_table \<notin> set (unavailable empty_database) \<and>
   speed_cameras empty_database = [] \<and>
   cd_latitude (example_cam_data 13.0827 80.2707) = Some 13.0827 \<and>
   cd_longitude (example_cam_data 13.0827 80.2707) = Some 80.2707 \<and>
   example_distance (ST_SetSRID (ST_MakePoint 80.2707 13.0827) 4326)
     (ST_SetSRID (ST_MakePoint 80.2707 13.08271) 4326) \<le> 10 \<and>
   (\<exists>camera db1.
       import_speed_cameras example_distance empty_database [example_cam_data 13.0827 80.2707]
         = Inr (db1, 1) \<and>
       speed_cameras db1 = speed_cameras empty_database @ [camera] \<and>
       cam_verification_count camera = Some 1 \<and>
       cam_confidence_score camera = Some 0.80 \<and>
       import_speed_cameras example_distance db1 [example_cam_data 13.08271 80.2707]
         = Inr (db1, 0)) \<and>
   create_camera empty_database example_request 7 =
     (Inr (reported_camera example_request 7 0),
      empty_database\<lparr>speed_cameras := [reported_camera example_request 7 0], next_uuid := 1\<rparr>) \<and>
   create_camera
     (empty_database\<lparr>speed_cameras := [reported_camera example_request 7 0], next_uuid := 1\<rparr>)
     example_request 8 =
     (Inr (reported_camera example_request 8 1),
      empty_database\<lparr>speed_cameras := [reported_camera example_request 7 0,
                                         reported_camera example_request 8 1],
                      next_uuid := 2\<rparr>) \<and>
   speed_cameras
     (empty_database\<lparr>speed_cameras := [reported_camera example_request 7 0,
                                        reported_camera example_request 8 1],
                     next_uuid := 2\<rparr>)
     = speed_cameras empty_database
         @ [reported_camera example_request 7 0, reported_camera example_request 8 1] \<and>
   cam_id (reported_camera example_request 7 0) \<noteq> cam_id (reported_camera example_request 8 1) \<and>
   cam_verification_count (reported_camera example_request 7 0) = Some 0 \<and>
   cam_verification_count (reported_camera example_request 8 1) = Some 0 \<and>
   cam_confidence_score (reported_camera example_request 7 0) = Some 0.50 \<and>
   cam_confidence_score (reported_camera example_request 8 1) = Some 0.50"
proof -
  note t = import_skips_submission_near_stored_camera [where ST_Distance = example_distance]
  note t1 = t [THEN conjunct1, rule_format]
  note t2 = t [THEN conjunct2, THEN conjunct1, rule_format]
  note t3 = t [THEN conjunct2, THEN conjunct2, THEN conjunct1, rule_format]
  note t4 = t [THEN conjunct2, THEN conjunct2, THEN conjunct2, THEN conjunct1, rule_format]
  note t5 = t [THEN conjunct2, THEN conjunct2, THEN conjunct2, THEN conjunct2, rule_format]
  have e: "speed_cameras empty_database = []" by (simp add: empty_database_def)
  have step:
    "import_camera example_distance example_import_state (example_cam_data 13.08271 80.2707)
     = Inr (example_import_state
              \<lparr>st_skipped_count := Suc (st_skipped_count example_import_state)\<rparr>)"
    by (rule t1 [where latitude = "13.08271" and longitude = "80.2707"
          and c = "(constructed_camera (example_cam_data 13.0827 80.2707) 13.0827 80.2707)
                     \<lparr>cam_id := 0\<rparr>"])
       (intro conjI example_first_entry(10) example_first_entry(11)
          example_stored_camera(1) example_stored_camera(2))
  from t2 [OF example_import_loop] have loop: "\<exists>rows new.
      speed_cameras (st_db (example_import_state
              \<lparr>st_skipped_count := Suc (st_skipped_count example_import_state)\<rparr>))
        = speed_cameras (st_db example_import_state) @ rows \<and>
      map cam_location (rows @ st_pending (example_import_state
              \<lparr>st_skipped_count := Suc (st_skipped_count example_import_state)\<rparr>))
        = map cam_location (st_pending example_import_state) @ new \<and>
      list_all (\<lambda>p. list_all (\<lambda>c. \<not> example_distance (cam_location c) p \<le> 10)
                       (speed_cameras (st_db example_import_state))) new"
    unfolding list_all_iff by blast
  from t3 [OF example_import_later] have run: "\<exists>rows. speed_cameras example_later_database
             = speed_cameras example_imported_database @ rows \<and>
      length rows = 1 \<and>
      list_all (\<lambda>r. cam_verification_count r = Some 1 \<and> cam_confidence_score r = Some 0.80 \<and>
                  list_all (\<lambda>c. \<not> example_distance (cam_location c) (cam_location r) \<le> 10)
                    (speed_cameras example_imported_database)) rows"
    unfolding list_all_iff by blast
  from t4 example_first_entry have two: "\<exists>camera db1.
       import_speed_cameras example_distance empty_database [example_cam_data 13.0827 80.2707]
         = Inr (db1, 1) \<and>
       speed_cameras db1 = speed_cameras empty_database @ [camera] \<and>
       cam_verification_count camera = Some 1 \<and>
       cam_confidence_score camera = Some 0.80 \<and>
       import_speed_cameras example_distance db1 [example_cam_data 13.08271 80.2707]
         = Inr (db1, 0)"
    by blast
  from t5 example_reports have post:
    "speed_cameras
       (empty_database\<lparr>speed_cameras := [reported_camera example_request 7 0,
                                          reported_camera example_request 8 1],
                       next_uuid := 2\<rparr>)
     = speed_cameras empty_database
         @ [reported_camera example_request 7 0, reported_camera example_request 8 1] \<and>
     cam_id (reported_camera example_request 7 0) \<noteq> cam_id (reported_camera example_request 8 1) \<and>
     cam_verification_count (reported_camera example_request 7 0) = Some 0 \<and>
     cam_verification_count (reported_camera example_request 8 1) = Some 0 \<and>
     cam_confidence_score (reported_camera example_request 7 0) = Some 0.50 \<and>
     cam_confidence_score (reported_camera example_request 8 1) = Some 0.50"
    by blast
  from step loop run two post example_first_entry(1,2,3,10,11,12) example_stored_camera(1,2)
    example_import_loop example_import_later example_reports e
  show ?thesis by blast
qed

text \<open>
  Claim C8. Every camera that \<open>import_speed_cameras\<close> adds has \<open>verified\<close> true,
  \<open>verification_count\<close> 1 and confidence 0.80; the camera that \<open>create_camera\<close>
  stores for a user has confidence 0.50 and \<open>verified\<close> false (and
  \<open>verification_count\<close> 0).
\<close>

theorem creation_defaults_by_source:
  fixes ST_Distance :: distance
  shows
  "(import_speed_cameras ST_Distance db cameras_data = Inr (db', n) \<longrightarrow>
      (\<exists>rows. speed_cameras db' = speed_cameras db @ rows \<and> length rows = n \<and>
         (\<forall>c \<in> set rows. cam_verified c = Some True \<and> cam_verification_count c = Some 1 \<and>
             cam_confidence_score c = Some 0.80))) \<and>
   (create_camera db request current_user = (Inr camera, db'') \<longrightarrow>
      speed_cameras db'' = speed_cameras db @ [camera] \<and>
      cam_confidence_score camera = Some 0.50 \<and> cam_verified camera = Some False \<and>
      cam_verification_count camera = Some 0)"
proof (intro conjI impI)
  assume "import_speed_cameras ST_Distance db cameras_data = Inr (db', n)"
  from import_speed_cameras_rows [OF this] show
    "\<exists>rows. speed_cameras db' = speed_cameras db @ rows \<and> length rows = n \<and>
         (\<forall>c \<in> set rows. cam_verified c = Some True \<and> cam_verification_count c = Some 1 \<and>
             cam_confidence_score c = Some 0.80)"
    unfolding imported_row_def by blast
next
  assume "create_camera db request current_user = (Inr camera, db'')"
  note c = create_camera_Inr [OF this]
  show "speed_cameras db'' = speed_cameras db @ [camera]" by (rule c(1))
  show "cam_confidence_score camera = Some 0.50" using c(2) by (simp add: reported_camera_def)
  show "cam_verified camera = Some False" using c(2) by (simp add: reported_camera_def)
  show "cam_verification_count camera = Some 0" using c(2) by (simp add: reported_camera_def)
qed

theorem creation_defaults_by_source_witness:
  "import_speed_cameras example_distance empty_database [example_cam_data 13.0827 80.2707]
     = Inr (example_imported_database, 1) \<and>
   create_camera empty_database example_request 7 =
     (Inr (reported_camera example_request 7 0),
      empty_database\<lparr>speed_cameras := [reported_camera example_request 7 0], next_uuid := 1\<rparr>) \<and>
   (\<exists>rows. speed_cameras example_imported_database = speed_cameras empty_database @ rows \<and>
      length rows = 1 \<and>
      list_all (\<lambda>c. cam_verified c = Some True \<and> cam_verification_count c = Some 1 \<and>
                     cam_confidence_score c = Some 0.80) rows) \<and>
   cam_confidence_score (reported_camera example_request 7 0) = Some 0.50 \<and>
   cam_verified (reported_camera example_request 7 0) = Some False"
proof -
  note t = creation_defaults_by_source
             [where ST_Distance = example_distance and db = empty_database
                and cameras_data = "[example_cam_data 13.0827 80.2707]"
                and db' = example_imported_database and n = 1
                and request = example_request and current_user = 7
                and camera = "reported_camera example_request 7 0"
                and db'' = "empty_database\<lparr>speed_cameras := [reported_camera example_request 7 0],
                                           next_uuid := 1\<rparr>"]
  from t example_import_first example_reports(1) show ?thesis
    unfolding list_all_iff by blast
qed

section \<open>The combined navigation data\<close>

lemma format_all_length:
  "format_all f xs = Inr ys \<Longrightarrow> length ys = length xs"
  by (induction xs arbitrary: ys) (auto split: sum.splits)

lemma navigation_data_nearby_Inr:
  assumes "navigation_data_nearby ST_Distance now db latitude longitude radius_meters = Inr data"
  shows "\<exists>cameras speed_limits hazards hazardous_roads.
     get_nearby_speed_cameras ST_Distance db latitude longitude radius_meters 0.0 False 50
       = Inr cameras \<and>
     get_nearby_speed_limits ST_Distance db latitude longitude radius_meters 0.0 False 50
       = Inr speed_limits \<and>
     get_nearby_hazards ST_Distance now db latitude longitude radius_meters 0.0 True 50
       = Inr hazards \<and>
     get_nearby_hazardous_roads ST_Distance db latitude longitude radius_meters 0.0 50
       = Inr hazardous_roads \<and>
     format_all format_camera cameras = Inr (nav_cameras data) \<and>
     format_all format_speed_limit speed_limits = Inr (nav_speed_limits data) \<and>
     format_all format_hazard hazards = Inr (nav_hazards data) \<and>
     format_all format_road hazardous_roads = Inr (nav_hazardous_roads data) \<and>
     nav_counts data = (length cameras, length speed_limits, length hazards,
                        length hazardous_roads)"
  using assms unfolding navigation_data_nearby_def
  by (auto split: sum.splits dest: format_all_length)

lemma navigation_data_nearby_Inl:
  assumes "(\<exists>e. get_nearby_speed_cameras ST_Distance db latitude longitude radius_meters
                   0.0 False 50 = Inl e) \<or>
           (\<exists>e. get_nearby_speed_limits ST_Distance db latitude longitude radius_meters
                   0.0 False 50 = Inl e) \<or>
           (\<exists>e. get_nearby_hazards ST_Distance now db latitude longitude radius_meters
                   0.0 True 50 = Inl e) \<or>
           (\<exists>e. get_nearby_hazardous_roads ST_Distance db latitude longitude radius_meters
                   0.0 50 = Inl e)"
  shows "\<exists>e. navigation_data_nearby ST_Distance now db latitude longitude radius_meters = Inl e"
proof (cases "navigation_data_nearby ST_Distance now db latitude longitude radius_meters")
  case (Inl e)
  then show ?thesis by blast
next
  case (Inr data)
  from navigation_data_nearby_Inr [OF this] assms show ?thesis by auto
qed

text \<open>
  Claim C9. When one of the four queries of \<open>get_navigation_data_nearby\<close> raises, the
  whole call fails with an error status (500, or 422 when the parameters are out of
  their declared bounds) and returns no data. Whenever the call returns data, all four
  queries have returned and each list of the response is the formatting of the whole
  result of its query.
\<close>

theorem navigation_all_or_nothing:
  fixes ST_Distance :: distance
  shows
  "((\<exists>e. get_nearby_speed_cameras ST_Distance db latitude longitude radius_meters
             0.0 False 50 = Inl e) \<or>
    (\<exists>e. get_nearby_speed_limits ST_Distance db latitude longitude radius_meters
             0.0 False 50 = Inl e) \<or>
    (\<exists>e. get_nearby_hazards ST_Distance now db latitude longitude radius_meters
             0.0 True 50 = Inl e) \<or>
    (\<exists>e. get_nearby_hazardous_roads ST_Distance db latitude longitude radius_meters
             0.0 50 = Inl e) \<longrightarrow>
    (get_navigation_data_nearby ST_Distance now db latitude longitude radius_meters
       = Inl (HTTPException 500) \<or>
     get_navigation_data_nearby ST_Distance now db latitude longitude radius_meters
       = Inl (HTTPException 422))) \<and>
   (get_navigation_data_nearby ST_Distance now db latitude longitude radius_meters = Inr data \<longrightarrow>
      (\<exists>cameras speed_limits hazards hazardous_roads.
         get_nearby_speed_cameras ST_Distance db latitude longitude radius_meters 0.0 False 50
           = Inr cameras \<and>
         get_nearby_speed_limits ST_Distance db latitude longitude radius_meters 0.0 False 50
           = Inr speed_limits \<and>
         get_nearby_hazards ST_Distance now db latitude longitude radius_meters 0.0 True 50
           = Inr hazards \<and>
         get_nearby_hazardous_roads ST_Distance db latitude longitude radius_meters 0.0 50
           = Inr hazardous_roads \<and>
         format_all format_camera cameras = Inr (nav_cameras data) \<and>
         format_all format_speed_limit speed_limits = Inr (nav_speed_limits data) \<and>
         format_all format_hazard hazards = Inr (nav_hazards data) \<and>
         format_all format_road hazardous_roads = Inr (nav_hazardous_roads data)))"
proof (intro conjI impI)
  assume "(\<exists>e. get_nearby_speed_cameras ST_Distance db latitude longitude radius_meters
             0.0 False 50 = Inl e) \<or>
    (\<exists>e. get_nearby_speed_limits ST_Distance db latitude longitude radius_meters
             0.0 False 50 = Inl e) \<or>
    (\<exists>e. get_nearby_hazards ST_Distance now db latitude longitude radius_meters
             0.0 True 50 = Inl e) \<or>
    (\<exists>e. get_nearby_hazardous_roads ST_Distance db latitude longitude radius_meters
             0.0 50 = Inl e)"
  from navigation_data_nearby_Inl [OF this] obtain e where
    "navigation_data_nearby ST_Distance now db latitude longitude radius_meters = Inl e" ..
  then show "get_navigation_data_nearby ST_Distance now db latitude longitude radius_meters
       = Inl (HTTPException 500) \<or>
     get_navigation_data_nearby ST_Distance now db latitude longitude radius_meters
       = Inl (HTTPException 422)"
    by (simp add: get_navigation_data_nearby_def)
next
  assume "get_navigation_data_nearby ST_Distance now db latitude longitude radius_meters = Inr data"
  then have "navigation_data_nearby ST_Distance now db latitude longitude radius_meters = Inr data"
    by (auto simp: get_navigation_data_nearby_def split: if_splits sum.splits)
  from navigation_data_nearby_Inr [OF this] show
    "\<exists>cameras speed_limits hazards hazardous_roads.
         get_nearby_speed_cameras ST_Distance db latitude longitude radius_meters 0.0 False 50
           = Inr cameras \<and>
         get_nearby_speed_limits ST_Distance db latitude longitude radius_meters 0.0 False 50
           = Inr speed_limits \<and>
         get_nearby_hazards ST_Distance now db latitude longitude radius_meters 0.0 True 50
           = Inr hazards \<and>
         get_nearby_hazardous_roads ST_Distance db latitude longitude radius_meters 0.0 50
           = Inr hazardous_roads \<and>
         format_all format_camera cameras = Inr (nav_cameras data) \<and>
         format_all format_speed_limit speed_limits = Inr (nav_speed_limits data) \<and>
         format_all format_hazard hazards = Inr (nav_hazards data) \<and>
         format_all format_road hazardous_roads = Inr (nav_hazardous_roads data)"
    by blast
qed

theorem navigation_all_or_nothing_witness:
  "get_nearby_hazards example_distance 1600 example_database_without_hazards
     13.0830 80.2705 500 0.0 True 50 = Inl OperationalError \<and>
   (\<exists>cameras. get_nearby_speed_cameras example_distance example_database_without_hazards
         13.0830 80.2705 500 0.0 False 50 = Inr cameras) \<and>
   get_navigation_data_nearby example_distance 1600 example_database_without_hazards
     13.0830 80.2705 500 = Inl (HTTPException 500)"
proof -
  have h: "get_nearby_hazards example_distance 1600 example_database_without_hazards
     13.0830 80.2705 500 0.0 True 50 = Inl OperationalError"
    by (simp add: get_nearby_hazards_def example_database_without_hazards_def Let_def)
  have c: "\<exists>cameras. get_nearby_speed_cameras example_distance example_database_without_hazards
         13.0830 80.2705 500 0.0 False 50 = Inr cameras"
    by (rule get_nearby_speed_cameras_total)
       (simp_all add: example_database_without_hazards_def example_database_def
          empty_database_def)
  have n: "get_navigation_data_nearby example_distance 1600 example_database_without_hazards
     13.0830 80.2705 500 \<noteq> Inl (HTTPException 422)"
    by (simp add: get_navigation_data_nearby_def split: sum.splits)
  note t = navigation_all_or_nothing
             [where ST_Distance = example_distance and now = 1600
                and db = example_database_without_hazards
                and latitude = "13.0830" and longitude = "80.2705" and radius_meters = 500]
  from t h c n show ?thesis by blast
qed

section \<open>Properties of the zone import\<close>

lemma zones_of_update [simp]:
  "zones_of zone_type (zones_update zone_type rows db) = rows"
  by (simp add: zones_of_def zones_update_def)





lemma zones_progress_counters:
  assumes "zst_db st' = zst_db st" and "zst_pending st' = zst_pending st"
    and "zst_imported_count st' = zst_imported_count st"
  shows "zones_progress zone_type st st' []"
  using assms by (simp add: zones_progress_def)






























end
